theory Spec2Isabelle
  imports Complex_Main "HOL-Library.Sublist"
begin

section \<open>Python strings\<close>

text \<open>
  A transcript is a \<open>string\<close>, a list of 8-bit characters. The functions of this section
  are Python's \<^verbatim>\<open>str\<close> methods and the \<^verbatim>\<open>in\<close> operator as they behave on ASCII text;
  on characters outside ASCII Python's case mapping, \<^verbatim>\<open>\d\<close>, \<^verbatim>\<open>\s\<close> and \<^verbatim>\<open>\w\<close> know
  more characters than the model does.
\<close>

definition lower_letters :: string where
  "lower_letters = ''abcdefghijklmnopqrstuvwxyz''"

definition upper_letters :: string where
  "upper_letters = ''ABCDEFGHIJKLMNOPQRSTUVWXYZ''"

definition digit_chars :: string where
  "digit_chars = ''0123456789''"

definition lower_char :: "char \<Rightarrow> char" where
  "lower_char c = (case map_of (zip upper_letters lower_letters) c of Some l \<Rightarrow> l | None \<Rightarrow> c)"

definition upper_char :: "char \<Rightarrow> char" where
  "upper_char c = (case map_of (zip lower_letters upper_letters) c of Some u \<Rightarrow> u | None \<Rightarrow> c)"

text \<open>\<^verbatim>\<open>s.lower()\<close> and \<^verbatim>\<open>s.upper()\<close>.\<close>

definition lower :: "string \<Rightarrow> string" where
  "lower s = map lower_char s"

definition upper :: "string \<Rightarrow> string" where
  "upper s = map upper_char s"

text \<open>\<^verbatim>\<open>s.capitalize()\<close>: the first character in upper case, the rest in lower case.\<close>

fun capitalize :: "string \<Rightarrow> string" where
  "capitalize [] = []"
| "capitalize (c # cs) = upper_char c # lower cs"

text \<open>
  The ASCII characters for which \<^verbatim>\<open>str.isspace\<close> holds; \<^verbatim>\<open>str.strip()\<close> removes them at
  both ends and \<^verbatim>\<open>\s\<close> matches them.
\<close>

definition is_space :: "char \<Rightarrow> bool" where
  "is_space c = (c \<in> set [CHR 0x09, CHR 0x0A, CHR 0x0B, CHR 0x0C, CHR 0x0D,
                           CHR 0x1C, CHR 0x1D, CHR 0x1E, CHR 0x1F, CHR 0x20])"

definition strip :: "string \<Rightarrow> string" where
  "strip s = rev (dropWhile is_space (rev (dropWhile is_space s)))"

text \<open>\<^verbatim>\<open>sub in s\<close> on strings: \<open>sub\<close> occurs in \<open>s\<close> as a contiguous substring.\<close>

fun substr_in :: "string \<Rightarrow> string \<Rightarrow> bool" where
  "substr_in sub [] = (sub = [])"
| "substr_in sub (c # cs) = (prefix sub (c # cs) \<or> substr_in sub cs)"

text \<open>
  \<^verbatim>\<open>s.replace(old, new)\<close> for a non-empty \<open>old\<close>: the occurrences of \<open>old\<close> are replaced
  from left to right, without overlap. (Every \<open>old\<close> of this program is non-empty; for an
  empty one the model returns \<open>s\<close>.)
\<close>

function replace :: "string \<Rightarrow> string \<Rightarrow> string \<Rightarrow> string" where
  "replace s old new =
     (if s = [] then []
      else if old \<noteq> [] \<and> prefix old s then new @ replace (drop (length old) s) old new
      else hd s # replace (tl s) old new)"
  by pat_completeness auto
termination
  by (relation "measure (\<lambda>(s, old, new). length s)") auto

text \<open>\<^verbatim>\<open>sep.join(xs)\<close>.\<close>

fun join :: "string \<Rightarrow> string list \<Rightarrow> string" where
  "join sep [] = []"
| "join sep [x] = x"
| "join sep (x # y # ys) = x @ sep @ join sep (y # ys)"

section \<open>The regular expressions of the program\<close>

text \<open>
  The program uses \<^verbatim>\<open>re.search\<close>, \<^verbatim>\<open>re.findall\<close> and \<^verbatim>\<open>re.sub\<close> with patterns built from
  literals, the word boundary \<^verbatim>\<open>\b\<close>, character classes under a greedy repetition, groups
  and one greedy optional group. \<open>rmatch r s (i, gs)\<close> lists every way \<open>r\<close> can match \<open>s\<close>
  from position \<open>i\<close> on, in the order in which Python's backtracking matcher tries them:
  a greedy repetition tries the longest run first, an optional group is tried before it
  is skipped. An element is the position after the match and the groups captured so far.
  The head of the list is therefore the match Python reports at \<open>i\<close>. No group of the
  program is nested in another, so the groups close in the order of their numbers.
\<close>

datatype cclass = Digit | Upper_digit | Whitespace | One_of string

fun in_class :: "cclass \<Rightarrow> char \<Rightarrow> bool" where
  "in_class Digit c = (c \<in> set digit_chars)"
| "in_class Upper_digit c = (c \<in> set (upper_letters @ digit_chars))"
| "in_class Whitespace c = is_space c"
| "in_class (One_of cs) c = (c \<in> set cs)"

text \<open>\<^verbatim>\<open>\w\<close> on ASCII: letters, digits and the underscore.\<close>

definition is_word_char :: "char \<Rightarrow> bool" where
  "is_word_char c = (c \<in> set (lower_letters @ upper_letters @ digit_chars @ ''_''))"

text \<open>\<^verbatim>\<open>\b\<close> holds at \<open>i\<close> when exactly one of the characters before and at \<open>i\<close> is a word character.\<close>

definition at_boundary :: "string \<Rightarrow> nat \<Rightarrow> bool" where
  "at_boundary s i =
     ((0 < i \<and> i \<le> length s \<and> is_word_char (s ! (i - 1))) \<noteq> (i < length s \<and> is_word_char (s ! i)))"

datatype rx =
    Boundary
  | Lit string
  | Rep cclass nat "nat option"
  | Seq rx rx
  | Group rx
  | Opt rx

type_synonym mstate = "nat \<times> string list"

fun rmatch :: "rx \<Rightarrow> string \<Rightarrow> mstate \<Rightarrow> mstate list" where
  "rmatch Boundary s (i, gs) = (if at_boundary s i then [(i, gs)] else [])"
| "rmatch (Lit l) s (i, gs) = (if take (length l) (drop i s) = l then [(i + length l, gs)] else [])"
| "rmatch (Rep cl lo hi) s (i, gs) =
     (let run = length (takeWhile (in_class cl) (drop i s));
          most = (case hi of None \<Rightarrow> run | Some h \<Rightarrow> min run h)
      in map (\<lambda>k. (i + k, gs)) (rev [lo..<Suc most]))"
| "rmatch (Seq a b) s (i, gs) = concat (map (rmatch b s) (rmatch a s (i, gs)))"
| "rmatch (Group a) s (i, gs) = map (\<lambda>(j, gs'). (j, gs' @ [take (j - i) (drop i s)])) (rmatch a s (i, gs))"
| "rmatch (Opt a) s (i, gs) = rmatch a s (i, gs) @ [(i, gs)]"

text \<open>The match at position \<open>i\<close>, if there is one: its end and its groups.\<close>

definition match_at :: "rx \<Rightarrow> string \<Rightarrow> nat \<Rightarrow> mstate option" where
  "match_at r s i = (case rmatch r s (i, []) of [] \<Rightarrow> None | m # _ \<Rightarrow> Some m)"

text \<open>\<^verbatim>\<open>re.search(r, s)\<close>: the match at the leftmost position that has one, as (start, end, groups).\<close>

definition re_search :: "rx \<Rightarrow> string \<Rightarrow> (nat \<times> nat \<times> string list) option" where
  "re_search r s =
     (case List.map_filter (\<lambda>i. map_option (\<lambda>(j, gs). (i, j, gs)) (match_at r s i)) [0..<Suc (length s)] of
        [] \<Rightarrow> None
      | m # _ \<Rightarrow> Some m)"

text \<open>
  The non-overlapping matches of \<open>r\<close> in \<open>s\<close> from position \<open>i\<close> on, from left to right,
  as (start, end): each search starts where the last match ended. (No pattern of the
  program matches the empty string; the model steps over an empty match.)
\<close>

function spans_from :: "rx \<Rightarrow> string \<Rightarrow> nat \<Rightarrow> (nat \<times> nat) list" where
  "spans_from r s i =
     (if length s < i then []
      else case match_at r s i of
             None \<Rightarrow> spans_from r s (Suc i)
           | Some (j, gs) \<Rightarrow>
               if i < j then (i, j) # spans_from r s j
               else spans_from r s (Suc i))"
  by pat_completeness auto
termination
  by (relation "measure (\<lambda>(r, s, i). Suc (length s) - i)") auto

definition slice :: "string \<Rightarrow> nat \<times> nat \<Rightarrow> string" where
  "slice s m = take (snd m - fst m) (drop (fst m) s)"

text \<open>\<^verbatim>\<open>re.findall(r, s)\<close> for a pattern without groups: the matched substrings.\<close>

definition findall :: "rx \<Rightarrow> string \<Rightarrow> string list" where
  "findall r s = map (slice s) (spans_from r s 0)"

text \<open>\<^verbatim>\<open>re.sub(r, repl, s)\<close> for a pattern that does not match the empty string.\<close>

function sub_from :: "rx \<Rightarrow> string \<Rightarrow> string \<Rightarrow> nat \<Rightarrow> string" where
  "sub_from r repl s i =
     (if length s \<le> i then []
      else case match_at r s i of
             None \<Rightarrow> s ! i # sub_from r repl s (Suc i)
           | Some (j, gs) \<Rightarrow>
               if i < j then repl @ sub_from r repl s j
               else s ! i # sub_from r repl s (Suc i))"
  by pat_completeness auto
termination
  by (relation "measure (\<lambda>(r, repl, s, i). length s - i)") auto

definition re_sub :: "rx \<Rightarrow> string \<Rightarrow> string \<Rightarrow> string" where
  "re_sub r repl s = sub_from r repl s 0"

text \<open>A pattern written as a sequence of parts.\<close>

fun seq :: "rx list \<Rightarrow> rx" where
  "seq [] = Lit []"
| "seq [r] = r"
| "seq (r # rs) = Seq r (seq rs)"

text \<open>\<^verbatim>\<open>\d+(?:\.\d+)?\<close>\<close>

definition number_rx :: rx where
  "number_rx = Seq (Rep Digit 1 None) (Opt (Seq (Lit ''.'') (Rep Digit 1 None)))"

text \<open>\<^verbatim>\<open>([A-Z0-9]{2,6})\<close>\<close>

definition token :: rx where
  "token = Group (Rep Upper_digit 2 (Some 6))"

text \<open>\<^verbatim>\<open>\s*\<close> and \<^verbatim>\<open>\s+\<close>\<close>

definition spaces :: rx where
  "spaces = Rep Whitespace 0 None"

definition spaces1 :: rx where
  "spaces1 = Rep Whitespace 1 None"

text \<open>\<^verbatim>\<open>\bWORD\b\<close>\<close>

definition whole_word :: "string \<Rightarrow> rx" where
  "whole_word w = seq [Boundary, Lit w, Boundary]"

text \<open>The five patterns of \<^verbatim>\<open>extract_trading_pair\<close>, in the order of the source.\<close>

definition patterns :: "rx list" where
  "patterns =
     [seq [Boundary, token, spaces, Rep (One_of ''/- '') 1 (Some 1), spaces, token, Boundary],
      seq [Lit ''trade'', spaces1, token, spaces1, Lit ''with'', spaces1, token],
      seq [Lit ''trade'', spaces1, token, spaces1, Lit ''against'', spaces1, token],
      seq [token, spaces1, Lit ''to'', spaces1, token],
      seq [token, spaces1, Lit ''versus'', spaces1, token]]"

section \<open>Extractors\<close>

text \<open>The tables of the module.\<close>

definition correction_keywords :: "string list" where
  "correction_keywords =
     [''i meant'', ''actually'', ''instead'', ''change to'', ''correct to'', ''no,'', ''not'',
      ''mistake'', ''wrong'']"

definition exchange_display_names :: "(string \<times> string) list" where
  "exchange_display_names =
     [(''okx'', ''OKX''), (''bybit'', ''Bybit''), (''deribit'', ''Deribit''), (''binance'', ''Binance'')]"

definition mispronunciations :: "(string \<times> string) list" where
  "mispronunciations =
     [(''e t h'', ''ETH''), (''b t c'', ''BTC''), (''u s d t'', ''USDT''), (''u s d'', ''USD''),
      (''u s DTPL'', ''USDT''), (''bit coin'', ''BTC''), (''ether'', ''ETH'')]"

definition exchanges :: "(string \<times> string list) list" where
  "exchanges =
     [(''okx'', [''okx'', ''okay ex'', ''okay x'', ''o k x'', ''ok ex'', ''ok x'']),
      (''bybit'', [''bybit'', ''buy bit'', ''by bit'']),
      (''deribit'', [''deribit'', ''dairy bit'', ''deri bit'']),
      (''binance'', [''binance'', ''finance'', ''by nance''])]"

text \<open>
  \<^verbatim>\<open>extract_exchange\<close>: the first exchange of the table, in its order, one of whose spoken
  variants occurs in the lower-cased transcript.
\<close>

definition extract_exchange :: "string \<Rightarrow> string option" where
  "extract_exchange transcript =
     (let transcript_l = lower transcript
      in map_option fst
           (find (\<lambda>(exc, variants). list_ex (\<lambda>variant. substr_in variant transcript_l) variants)
              exchanges))"

text \<open>
  The loop over the patterns of \<^verbatim>\<open>extract_trading_pair\<close>: the first pattern that matches
  gives \<^verbatim>\<open>group(1)\<close> and \<^verbatim>\<open>group(2)\<close>. Every pattern has exactly two groups.
\<close>

fun first_pair :: "rx list \<Rightarrow> string \<Rightarrow> string option" where
  "first_pair [] t = None"
| "first_pair (p # ps) t =
     (case re_search p t of
        None \<Rightarrow> first_pair ps t
      | Some (i, j, gs) \<Rightarrow>
          (case gs of base # quote # _ \<Rightarrow> Some (base @ ''/'' @ quote) | _ \<Rightarrow> first_pair ps t))"

definition extract_trading_pair :: "string \<Rightarrow> string option" where
  "extract_trading_pair transcript =
     (let t1 = upper transcript;
          t2 = re_sub (whole_word ''SLASH'') ''/'' t1;
          t3 = re_sub (whole_word ''DASH'') ''-'' t2;
          t4 = re_sub (whole_word ''HYPHEN'') ''-'' t3;
          t5 = foldl (\<lambda>t (mis, correct). replace t (upper mis) correct) t4 mispronunciations
      in first_pair patterns t5)"

section \<open>Numbers and the outside world\<close>

text \<open>
  Quantities and prices are Python floats (\<^verbatim>\<open>word_to_num\<close> may also return an int). The
  model does not fix their representation: the type \<open>'f\<close> of numbers and the library
  functions the program calls on them are parameters.
  \<^item> \<open>float_of n\<close> is \<^verbatim>\<open>float(n)\<close> for a decimal literal \<open>n\<close>;
  \<^item> \<open>is_zero x\<close> says that \<open>x\<close> is false as a condition (\<^verbatim>\<open>0.0\<close> and \<^verbatim>\<open>0\<close>);
  \<^item> \<open>word_to_num s\<close> is the outcome of \<^verbatim>\<open>w2n.word_to_num(s)\<close> of the word2number package:
    the number it returns, the \<^verbatim>\<open>ValueError\<close> it raises when it finds no number, or another
    exception (the package raises \<^verbatim>\<open>IndexError\<close> on some phrases);
  \<^item> \<open>str_of x\<close> is the text of \<open>x\<close> in an f-string and \<open>fmt_2f x\<close> its text under the
    format \<^verbatim>\<open>.2f\<close>;
  \<^item> \<open>older_than_300 now created\<close> is \<^verbatim>\<open>now - created > 300\<close> on the floats of \<^verbatim>\<open>time.time()\<close>.
\<close>

datatype 'f w2n_result = Number 'f | Value_error | Other_error

record 'f pylib =
  float_of :: "string \<Rightarrow> 'f"
  is_zero :: "'f \<Rightarrow> bool"
  word_to_num :: "string \<Rightarrow> 'f w2n_result"
  str_of :: "'f \<Rightarrow> string"
  fmt_2f :: "'f \<Rightarrow> string"
  older_than_300 :: "'f \<Rightarrow> 'f \<Rightarrow> bool"

text \<open>
  What one request reads from outside the process: the clock, read for the default
  timestamp of the user's message and again for the bot's message, and the exchange.
  \<open>fetch_ticker exchange_name symbol attempt\<close> is the outcome of the body of the
  \<^verbatim>\<open>try\<close> in \<^verbatim>\<open>get_current_price\<close> on the given attempt (counted from 0): the last
  price as a float, or \<open>None\<close> when anything in it raises.
\<close>

record 'f world =
  now_iso :: string
  now_iso_bot :: string
  fetch_ticker :: "string \<Rightarrow> string \<Rightarrow> nat \<Rightarrow> 'f option"

text \<open>The truth value of an optional string and of an optional number as a condition.\<close>

definition str_truthy :: "string option \<Rightarrow> bool" where
  "str_truthy v = (case v of None \<Rightarrow> False | Some s \<Rightarrow> s \<noteq> [])"

definition truthy :: "'f pylib \<Rightarrow> 'f option \<Rightarrow> bool" where
  "truthy lib v = (case v of None \<Rightarrow> False | Some x \<Rightarrow> \<not> is_zero lib x)"

text \<open>The text of an optional value inside an f-string.\<close>

definition fmt_str :: "string option \<Rightarrow> string" where
  "fmt_str v = (case v of None \<Rightarrow> ''None'' | Some s \<Rightarrow> s)"

definition fmt_num :: "'f pylib \<Rightarrow> 'f option \<Rightarrow> string" where
  "fmt_num lib v = (case v of None \<Rightarrow> ''None'' | Some x \<Rightarrow> str_of lib x)"

text \<open>
  The ways a request ends without a response: the two rejections of \<^verbatim>\<open>webhook\<close>, the
  rejection of \<^verbatim>\<open>poll_messages\<close> and \<^verbatim>\<open>end_call\<close>, and an exception that no handler of the
  module catches.
\<close>

datatype error = Invalid_call_id | Session_ended | Session_not_found | Internal_error

text \<open>
  \<^verbatim>\<open>extract_number\<close>. Of the characters the source strips, the comma and the dollar sign
  are ASCII. The function catches \<^verbatim>\<open>ValueError\<close> and returns \<^verbatim>\<open>None\<close>; any other exception
  of the word parser leaves the function.
\<close>

definition extract_number :: "'f pylib \<Rightarrow> string \<Rightarrow> error + 'f option" where
  "extract_number lib transcript =
     (let clean_str = re_sub (Rep (One_of '',$'') 1 (Some 1)) [] transcript
      in case re_search number_rx clean_str of
           Some (i, j, gs) \<Rightarrow> Inr (Some (float_of lib (take (j - i) (drop i clean_str))))
         | None \<Rightarrow>
             (case word_to_num lib clean_str of
                Number x \<Rightarrow> Inr (Some x)
              | Value_error \<Rightarrow> Inr None
              | Other_error \<Rightarrow> Inl Internal_error))"

section \<open>Price lookup\<close>

definition normalize_symbol :: "string \<Rightarrow> string \<Rightarrow> string" where
  "normalize_symbol exchange_name symbol = (if symbol \<noteq> [] then replace symbol ''/'' [] else symbol)"

text \<open>
  The loop of \<^verbatim>\<open>get_current_price\<close> from attempt \<open>attempt\<close> on. The result is what the
  function returns, \<open>None\<close> when the loop ends without a \<^verbatim>\<open>return\<close> (the function then
  returns Python's \<^verbatim>\<open>None\<close>, not a pair), together with the delays it slept, in order.
\<close>

function price_attempts ::
  "'f world \<Rightarrow> string \<Rightarrow> string \<Rightarrow> nat \<Rightarrow> nat \<Rightarrow> nat \<Rightarrow> ('f option \<times> string option) option \<times> nat list"
where
  "price_attempts w exchange_name normalized_symbol retries attempt delay =
     (if attempt < retries then
        (case fetch_ticker w exchange_name normalized_symbol attempt of
           Some last_price \<Rightarrow> (Some (Some last_price, None), [])
         | None \<Rightarrow>
             if attempt < retries - 1
             then apsnd (Cons delay)
                    (price_attempts w exchange_name normalized_symbol retries (Suc attempt) (delay * 2))
             else (Some (None, Some ''failed to fetch price''), []))
      else (None, []))"
  by pat_completeness auto
termination
  by (relation "measure (\<lambda>(w, e, n, retries, attempt, delay). retries - attempt)") auto

definition get_current_price ::
  "'f world \<Rightarrow> string \<Rightarrow> string \<Rightarrow> nat \<Rightarrow> nat \<Rightarrow> ('f option \<times> string option) option \<times> nat list"
where
  "get_current_price w exchange_name symbol retries delay =
     price_attempts w exchange_name (normalize_symbol exchange_name symbol) retries 0 delay"

section \<open>Sessions\<close>

datatype sender = Bot | User

record message =
  sender :: sender
  msg_text :: string
  timestamp :: string

datatype slot = Exchange | Trading_pair | Quantity | Price

record 'f state =
  exchange :: "string option"
  trading_pair :: "string option"
  quantity :: "'f option"
  price :: "'f option"
  messages :: "message list"
  ended :: bool
  created :: 'f
  current_step :: slot
  retry_count :: int

text \<open>\<^verbatim>\<open>conversation_state\<close>: the sessions by call id.\<close>

type_synonym 'f store = "string \<rightharpoonup> 'f state"

text \<open>The JSON body of a request; a key that is absent is \<open>None\<close>.\<close>

record request =
  req_call_id :: "string option"
  req_transcript :: "string option"
  req_timestamp :: "string option"

text \<open>The fixed texts. Characters outside ASCII are given by their UTF-8 bytes.\<close>

definition initial_message :: string where
  "initial_message =
     ''Hello! Welcome to Voice Trading Assistant. Please choose an exchange: OKX, Bybit, Deribit, or Binance.''"

definition check_mark :: string where
  "check_mark = [CHR 0xE2, CHR 0x9C, CHR 0x85]"

definition warning_sign :: string where
  "warning_sign = [CHR 0xE2, CHR 0x9A, CHR 0xA0, CHR 0xEF, CHR 0xB8, CHR 0x8F]"

definition fallback_response :: string where
  "fallback_response =
     ''Sorry, I didn'' @ [CHR 0xE2, CHR 0x80, CHR 0x99] @ ''t catch that. Please try again.''"

text \<open>
  \<^verbatim>\<open>start_call\<close>. The call id is the fresh \<^verbatim>\<open>uuid4\<close> string, \<open>now\<close> is \<^verbatim>\<open>time.time()\<close> and
  \<open>ts\<close> the clock in ISO format.
\<close>

definition start_call :: "'f store \<Rightarrow> string \<Rightarrow> 'f \<Rightarrow> string \<Rightarrow> 'f store \<times> string \<times> string" where
  "start_call S call_id now ts =
     (S(call_id \<mapsto>
        \<lparr>exchange = None, trading_pair = None, quantity = None, price = None,
         messages = [\<lparr>sender = Bot, msg_text = initial_message, timestamp = ts\<rparr>],
         ended = False, created = now, current_step = Exchange, retry_count = 0\<rparr>),
      (call_id, initial_message))"

subsection \<open>One turn of \<^verbatim>\<open>webhook\<close>\<close>

definition is_correction :: "string \<Rightarrow> bool" where
  "is_correction transcript_lower = list_ex (\<lambda>keyword. substr_in keyword transcript_lower) correction_keywords"

text \<open>
  Line 250, the numbers of a turn: every decimal literal of the lower-cased transcript
  or, when there is none, the one result of \<^verbatim>\<open>extract_number\<close>, which may be \<open>None\<close>. An
  exception of \<^verbatim>\<open>extract_number\<close> ends the request.
\<close>

definition numbers :: "'f pylib \<Rightarrow> string \<Rightarrow> error + 'f option list" where
  "numbers lib transcript =
     (let found = map (\<lambda>n. Some (float_of lib n)) (findall number_rx (lower transcript))
      in if found \<noteq> [] then Inr found
         else (case extract_number lib transcript of Inl e \<Rightarrow> Inl e | Inr v \<Rightarrow> Inr [v]))"

definition qty_candidate :: "'f option list \<Rightarrow> string \<Rightarrow> 'f option" where
  "qty_candidate nums transcript_lower =
     (if nums \<noteq> [] \<and> \<not> substr_in ''at'' transcript_lower then hd nums else None)"

definition price_candidate :: "'f pylib \<Rightarrow> 'f option list \<Rightarrow> string \<Rightarrow> 'f option \<Rightarrow> 'f option" where
  "price_candidate lib nums transcript_lower known_quantity =
     (if nums \<noteq> [] \<and> substr_in ''at'' transcript_lower then last nums
      else if nums \<noteq> [] \<and> truthy lib known_quantity then hd nums
      else None)"

text \<open>\<^verbatim>\<open>exchange_display_names.get(exch, exch)\<close>\<close>

definition display_name :: "string option \<Rightarrow> string option" where
  "display_name exch =
     (case exch of
        None \<Rightarrow> None
      | Some e \<Rightarrow> (case map_of exchange_display_names e of Some d \<Rightarrow> Some d | None \<Rightarrow> Some e))"

text \<open>
  The four assignments, each with the fragment it appends to \<^verbatim>\<open>updated_slots\<close>. The
  pair is the state and the fragments so far.
\<close>

definition put_exchange :: "string option \<Rightarrow> 'f state \<times> string list \<Rightarrow> 'f state \<times> string list" where
  "put_exchange exch su =
     (fst su\<lparr>exchange := exch\<rparr>, snd su @ [''exchange to '' @ fmt_str (display_name exch)])"

definition put_trading_pair :: "string option \<Rightarrow> 'f state \<times> string list \<Rightarrow> 'f state \<times> string list" where
  "put_trading_pair symbol su =
     (fst su\<lparr>trading_pair := symbol\<rparr>, snd su @ [''trading pair to '' @ fmt_str symbol])"

definition put_quantity :: "'f pylib \<Rightarrow> 'f option \<Rightarrow> 'f state \<times> string list \<Rightarrow> 'f state \<times> string list" where
  "put_quantity lib qty su =
     (fst su\<lparr>quantity := qty\<rparr>, snd su @ [''quantity to '' @ fmt_num lib qty])"

definition put_price :: "'f pylib \<Rightarrow> 'f option \<Rightarrow> 'f state \<times> string list \<Rightarrow> 'f state \<times> string list" where
  "put_price lib prc su =
     (fst su\<lparr>price := prc\<rparr>, snd su @ [''price to '' @ fmt_num lib prc])"

text \<open>Lines 259 to 286 of the source: the slot updates of a turn and \<^verbatim>\<open>updated_slots\<close>.\<close>

definition update_slots ::
  "'f pylib \<Rightarrow> bool \<Rightarrow> string option \<Rightarrow> string option \<Rightarrow> 'f option \<Rightarrow> 'f option \<Rightarrow> 'f state
     \<Rightarrow> 'f state \<times> string list"
where
  "update_slots lib correction exch symbol qty prc state =
     (if correction then
        (let s1 = (if str_truthy exch then put_exchange exch (state, []) else (state, []));
             s2 = (if str_truthy symbol then put_trading_pair symbol s1 else s1);
             s3 = (if qty \<noteq> None then put_quantity lib qty s2 else s2);
             s4 = (if prc \<noteq> None then put_price lib prc s3 else s3)
         in s4)
      else
        (let s1 = (if exchange state = None \<and> str_truthy exch
                   then put_exchange exch (state, []) else (state, []));
             s2 = (if trading_pair (fst s1) = None \<and> str_truthy symbol
                   then put_trading_pair symbol s1 else s1);
             s3 = (if quantity (fst s2) = None \<and> qty \<noteq> None then put_quantity lib qty s2 else s2);
             s4 = (if price (fst s3) = None \<and> prc \<noteq> None then put_price lib prc s3 else s3)
         in s4))"

text \<open>
  Lines 241 to 286, with the numbers of line 250 as \<open>nums\<close>: the candidates are
  extracted from the transcript, the price candidate with the quantity the session has
  before the turn, and the slots updated.
\<close>

definition collect ::
  "'f pylib \<Rightarrow> 'f state \<Rightarrow> string \<Rightarrow> 'f option list \<Rightarrow> 'f state \<times> string list"
where
  "collect lib state transcript nums =
     (let transcript_lower = lower transcript;
          exch = extract_exchange transcript;
          symbol = extract_trading_pair transcript;
          qty = qty_candidate nums transcript_lower;
          prc = price_candidate lib nums transcript_lower (quantity state)
      in update_slots lib (is_correction transcript_lower) exch symbol qty prc state)"

fun slot_unset :: "'f state \<Rightarrow> slot \<Rightarrow> bool" where
  "slot_unset state Exchange = (exchange state = None)"
| "slot_unset state Trading_pair = (trading_pair state = None)"
| "slot_unset state Quantity = (quantity state = None)"
| "slot_unset state Price = (price state = None)"

definition missing_slots :: "'f state \<Rightarrow> slot list" where
  "missing_slots state = filter (slot_unset state) [Exchange, Trading_pair, Quantity, Price]"

text \<open>
  Lines 295 to 307: the confirmation. It is reached with all four slots set; their
  values are the arguments.
\<close>

definition price_msg :: "'f pylib \<Rightarrow> 'f option \<Rightarrow> string option \<Rightarrow> string" where
  "price_msg lib current_price err =
     (case current_price of
        Some cp \<Rightarrow>
          if \<not> is_zero lib cp then ''Current market price is $'' @ fmt_2f lib cp @ ''.''
          else warning_sign @ '' Couldn't fetch price: '' @ fmt_str err @ ''.''
      | None \<Rightarrow> warning_sign @ '' Couldn't fetch price: '' @ fmt_str err @ ''.'')"

definition exchange_display :: "string \<Rightarrow> string" where
  "exchange_display ex = (case map_of exchange_display_names ex of Some d \<Rightarrow> d | None \<Rightarrow> capitalize ex)"

definition confirmation :: "'f pylib \<Rightarrow> string \<Rightarrow> string \<Rightarrow> 'f \<Rightarrow> 'f \<Rightarrow> string \<Rightarrow> string" where
  "confirmation lib ex pair q p pmsg =
     check_mark @ '' Order confirmed: Trading '' @ str_of lib q @ '' '' @ pair @ '' on ''
       @ exchange_display ex @ '' at $'' @ fmt_2f lib p @ ''. '' @ pmsg @ '' Goodbye!''"

definition finalize :: "'f pylib \<Rightarrow> 'f world \<Rightarrow> 'f state \<Rightarrow> 'f state \<times> (error + string)" where
  "finalize lib w state =
     (case (exchange state, trading_pair state, quantity state, price state) of
        (Some ex, Some pair, Some q, Some p) \<Rightarrow>
          (case fst (get_current_price w ex pair 3 1) of
             None \<Rightarrow> (state, Inl Internal_error)
           | Some (current_price, err) \<Rightarrow>
               (state\<lparr>ended := True, retry_count := 0\<rparr>,
                Inr (confirmation lib ex pair q p (price_msg lib current_price err))))
      | _ \<Rightarrow> (state, Inl Internal_error))"

text \<open>The escalation table, with the trading pair of the state in the quantity prompts.\<close>

fun prompts :: "'f state \<Rightarrow> slot \<Rightarrow> string list" where
  "prompts state Exchange =
     [''Please choose an exchange: OKX, Bybit, Deribit, or Binance.'',
      ''Which exchange? Say OKX, Bybit, Deribit, or Binance.'',
      ''Exchange name, please (e.g., OKX).'']"
| "prompts state Trading_pair =
     [''What trading pair would you like? (e.g., BTC/USDT)'',
      ''Please specify the trading pair, like ETH/USDT.'',
      ''Trading pair? (e.g., BTC/USDT)'']"
| "prompts state Quantity =
     [''How many units of '' @ fmt_str (trading_pair state) @ ''?'',
      ''Number of '' @ fmt_str (trading_pair state) @ '' units, please.'',
      ''Quantity for '' @ fmt_str (trading_pair state) @ ''?'']"
| "prompts state Price =
     [''At what price? Just say the number.'',
      ''Please say the price (e.g., 2000).'',
      ''Price?'']"

text \<open>\<^verbatim>\<open>xs[i]\<close>: a negative index counts from the end, an index out of range raises.\<close>

definition py_index :: "'a list \<Rightarrow> int \<Rightarrow> 'a option" where
  "py_index xs i =
     (if 0 \<le> i \<and> i < int (length xs) then Some (xs ! nat i)
      else if i < 0 \<and> - int (length xs) \<le> i then Some (xs ! nat (int (length xs) + i))
      else None)"

definition ack :: "string list \<Rightarrow> string" where
  "ack updated_slots =
     (if updated_slots \<noteq> [] then ''Got it, updated '' @ join '' and '' updated_slots @ ''.'' else [])"

text \<open>
  Lines 310 to 344: the next step, the retry counter and the prompt. The table is
  indexed only when there is an acknowledgment or the index is positive.
\<close>

definition ask :: "'f state \<Rightarrow> string list \<Rightarrow> slot \<Rightarrow> 'f state \<times> (error + string)" where
  "ask state updated_slots next_step =
     (let state1 = state\<lparr>current_step := next_step\<rparr>;
          state2 = (if updated_slots = [] then state1\<lparr>retry_count := retry_count state1 + 1\<rparr>
                    else state1);
          prompt_idx = min (retry_count state2) 2
      in if ack updated_slots \<noteq> [] \<or> 0 < prompt_idx
         then (case py_index (prompts state2 next_step) prompt_idx of
                 None \<Rightarrow> (state2, Inl Internal_error)
               | Some prompt \<Rightarrow> (state2, Inr (strip (ack updated_slots @ '' '' @ prompt))))
         else (state2, Inr fallback_response))"

definition user_message :: "'f world \<Rightarrow> string \<Rightarrow> string option \<Rightarrow> message" where
  "user_message w transcript ts =
     \<lparr>sender = User, msg_text = transcript,
      timestamp = (case ts of Some t \<Rightarrow> t | None \<Rightarrow> now_iso w)\<rparr>"

definition bot_message :: "'f world \<Rightarrow> string \<Rightarrow> message" where
  "bot_message w bot_response = \<lparr>sender = Bot, msg_text = bot_response, timestamp = now_iso_bot w\<rparr>"

text \<open>Lines 235 to 239: the user's message is appended to the history.\<close>

definition heard :: "'f world \<Rightarrow> 'f state \<Rightarrow> string \<Rightarrow> string option \<Rightarrow> 'f state" where
  "heard w state transcript ts = state\<lparr>messages := messages state @ [user_message w transcript ts]\<rparr>"

text \<open>
  Lines 252 to 351, once the numbers of the turn are there: the slots are updated, the
  turn confirms the order or asks for the next slot, and the bot's message is appended.
  An exception leaves the state as it is when it is raised.
\<close>

definition respond ::
  "'f pylib \<Rightarrow> 'f world \<Rightarrow> 'f state \<Rightarrow> string \<Rightarrow> 'f option list \<Rightarrow> 'f state \<times> (error + string)"
where
  "respond lib w state1 transcript nums =
     (let (state2, updated_slots) = collect lib state1 transcript nums;
          (state3, result) = (case missing_slots state2 of
                                [] \<Rightarrow> finalize lib w state2
                              | next_step # _ \<Rightarrow> ask state2 updated_slots next_step)
      in case result of
           Inl e \<Rightarrow> (state3, Inl e)
         | Inr bot_response \<Rightarrow>
             (state3\<lparr>messages := messages state3 @ [bot_message w bot_response]\<rparr>,
              Inr bot_response))"

text \<open>
  Lines 234 to 351, on a session that has not ended: the user's message is appended,
  the numbers are extracted, and the turn responds. When the word parser raises an
  exception that \<^verbatim>\<open>extract_number\<close> does not catch, the request ends there: the user's
  message is in the history and no response is.
\<close>

definition turn ::
  "'f pylib \<Rightarrow> 'f world \<Rightarrow> 'f state \<Rightarrow> string \<Rightarrow> string option \<Rightarrow> 'f state \<times> (error + string)"
where
  "turn lib w state transcript ts =
     (let state1 = heard w state transcript ts
      in case numbers lib transcript of
           Inl e \<Rightarrow> (state1, Inl e)
         | Inr nums \<Rightarrow> respond lib w state1 transcript nums)"

subsection \<open>The operations on the store\<close>

text \<open>Line 220: \<^verbatim>\<open>data.get('transcript', '').strip()\<close>.\<close>

definition transcript_of :: "request \<Rightarrow> string" where
  "transcript_of data = strip (case req_transcript data of None \<Rightarrow> [] | Some t \<Rightarrow> t)"

definition webhook :: "'f pylib \<Rightarrow> 'f world \<Rightarrow> 'f store \<Rightarrow> request \<Rightarrow> 'f store \<times> (error + string)" where
  "webhook lib w S data =
     (let transcript = transcript_of data
      in case req_call_id data of
           None \<Rightarrow> (S, Inl Invalid_call_id)
         | Some call_id \<Rightarrow>
             if call_id = [] then (S, Inl Invalid_call_id)
             else (case S call_id of
                     None \<Rightarrow> (S, Inl Invalid_call_id)
                   | Some state \<Rightarrow>
                       if ended state then (S, Inl Session_ended)
                       else (let (state', result) = turn lib w state transcript (req_timestamp data)
                             in (S(call_id \<mapsto> state'), result))))"

definition cleanup_old_states :: "'f pylib \<Rightarrow> 'f \<Rightarrow> 'f store \<Rightarrow> 'f store" where
  "cleanup_old_states lib now S =
     (\<lambda>call_id. case S call_id of
                  None \<Rightarrow> None
                | Some state \<Rightarrow>
                    if ended state \<and> older_than_300 lib now (created state) then None else Some state)"

definition poll_messages ::
  "'f pylib \<Rightarrow> 'f \<Rightarrow> 'f store \<Rightarrow> string \<Rightarrow> 'f store \<times> (error + message list \<times> bool)"
where
  "poll_messages lib now S call_id =
     (let S' = cleanup_old_states lib now S
      in case S' call_id of
           None \<Rightarrow> (S', Inl Session_not_found)
         | Some state \<Rightarrow> (S', Inr (messages state, ended state)))"

definition end_call :: "'f store \<Rightarrow> string option \<Rightarrow> 'f store \<times> (error + string)" where
  "end_call S call_id =
     (case call_id of
        None \<Rightarrow> (S, Inl Session_not_found)
      | Some cid \<Rightarrow>
          (case S cid of
             Some state \<Rightarrow> (S(cid \<mapsto> state\<lparr>ended := True\<rparr>), Inr ''Session ended'')
           | None \<Rightarrow> (S, Inl Session_not_found)))"

subsection \<open>Runs\<close>

text \<open>
  The requests a process serves, one after the other (the lock of the source serialises
  them). \<open>Start_call\<close> carries the identifier \<^verbatim>\<open>uuid4\<close> returns: it is not the empty string
  and no session has it.
\<close>

datatype 'f event =
    Start_call string 'f string
  | Webhook request "'f world"
  | Poll_messages string 'f
  | End_call "string option"

fun step :: "'f pylib \<Rightarrow> 'f store \<Rightarrow> 'f event \<Rightarrow> 'f store option" where
  "step lib S (Start_call call_id now ts) =
     (if call_id \<noteq> [] \<and> S call_id = None then Some (fst (start_call S call_id now ts)) else None)"
| "step lib S (Webhook data w) = Some (fst (webhook lib w S data))"
| "step lib S (Poll_messages call_id now) = Some (fst (poll_messages lib now S call_id))"
| "step lib S (End_call call_id) = Some (fst (end_call S call_id))"

fun run :: "'f pylib \<Rightarrow> 'f store \<Rightarrow> 'f event list \<Rightarrow> 'f store option" where
  "run lib S [] = Some S"
| "run lib S (e # es) = (case step lib S e of None \<Rightarrow> None | Some S' \<Rightarrow> run lib S' es)"

text \<open>The session \<open>call_id\<close> after the events \<open>es\<close>, from the empty store.\<close>

definition session_after :: "'f pylib \<Rightarrow> 'f event list \<Rightarrow> string \<Rightarrow> 'f state option" where
  "session_after lib es call_id = (case run lib Map.empty es of None \<Rightarrow> None | Some S \<Rightarrow> S call_id)"

definition all_slots_set :: "'f state \<Rightarrow> bool" where
  "all_slots_set state =
     (exchange state \<noteq> None \<and> trading_pair state \<noteq> None \<and> quantity state \<noteq> None \<and> price state \<noteq> None)"

text \<open>
  What holds of the store after every run: no session has the empty call id, no retry
  counter is negative, and a session with all four slots set has ended.
\<close>

definition store_ok :: "'f store \<Rightarrow> bool" where
  "store_ok S =
     (S [] = None \<and>
      (\<forall>call_id state. S call_id = Some state \<longrightarrow>
         0 \<le> retry_count state \<and> (all_slots_set state \<longrightarrow> ended state)))"

text \<open>
  The requests whose sweep deletes the session \<open>state\<close> once it has ended: the polls at a
  time more than 300 seconds after the session was created (lines 170 to 174; every
  poll sweeps the whole store, whatever call id it asks for).
\<close>

definition sweeps :: "'f pylib \<Rightarrow> 'f state \<Rightarrow> 'f event \<Rightarrow> bool" where
  "sweeps lib state e =
     (case e of Poll_messages call_id now \<Rightarrow> older_than_300 lib now (created state) | _ \<Rightarrow> False)"

section \<open>An instance to run the model on\<close>

text \<open>
  Numbers as exact rationals: a decimal literal has its value, zero is the rational 0.
  This instance knows no number words (its word parser finds no number in any phrase)
  and prints every number as the same placeholder;
  it is used to run the model on transcripts written with digits.
\<close>

definition digit_value :: "char \<Rightarrow> nat" where
  "digit_value c = length (takeWhile (\<lambda>d. d \<noteq> c) digit_chars)"

definition digits_value :: "string \<Rightarrow> nat" where
  "digits_value ds = foldl (\<lambda>a c. 10 * a + digit_value c) 0 ds"

definition dec_value :: "string \<Rightarrow> rat" where
  "dec_value s =
     (let ip = takeWhile (\<lambda>c. c \<noteq> CHR ''.'') s; fp = drop (Suc (length ip)) s
      in of_nat (digits_value ip) + of_nat (digits_value fp) / 10 ^ length fp)"

definition demo_lib :: "rat pylib" where
  "demo_lib =
     \<lparr>float_of = dec_value, is_zero = (\<lambda>x. x = 0), word_to_num = (\<lambda>s. Value_error),
      str_of = (\<lambda>x. ''<number>''), fmt_2f = (\<lambda>x. ''<number>''),
      older_than_300 = (\<lambda>now created. now - created > 300)\<rparr>"

text \<open>A world in which the exchange cannot be reached.\<close>

definition offline :: "rat world" where
  "offline = \<lparr>now_iso = ''t1'', now_iso_bot = ''t2'', fetch_ticker = (\<lambda>ex sym attempt. None)\<rparr>"

definition utter :: "string \<Rightarrow> string \<Rightarrow> request" where
  "utter call_id transcript =
     \<lparr>req_call_id = Some call_id, req_transcript = Some transcript, req_timestamp = None\<rparr>"

definition say :: "string \<Rightarrow> string \<Rightarrow> rat event" where
  "say call_id transcript = Webhook (utter call_id transcript) offline"

text \<open>
  A session that has named the exchange, the pair and the quantity in three turns, the
  store it leaves, and the state of the session in that store.
\<close>

definition quantity_events :: "rat event list" where
  "quantity_events =
     [Start_call ''c1'' 0 ''t0'', say ''c1'' ''okx'', say ''c1'' ''BTC/USDT'', say ''c1'' ''3'']"

definition quantity_store :: "rat store" where
  "quantity_store =
     (case run demo_lib Map.empty quantity_events of Some S \<Rightarrow> S | None \<Rightarrow> Map.empty)"

definition awaiting_price :: "rat state" where
  "awaiting_price =
     \<lparr>exchange = Some ''okx'', trading_pair = Some ''BTC/USDT'', quantity = Some 3, price = None,
      messages =
        [\<lparr>sender = Bot, msg_text = initial_message, timestamp = ''t0''\<rparr>,
         \<lparr>sender = User, msg_text = ''okx'', timestamp = ''t1''\<rparr>,
         \<lparr>sender = Bot,
          msg_text = ''Got it, updated exchange to OKX. What trading pair would you like? (e.g., BTC/USDT)'',
          timestamp = ''t2''\<rparr>,
         \<lparr>sender = User, msg_text = ''BTC/USDT'', timestamp = ''t1''\<rparr>,
         \<lparr>sender = Bot,
          msg_text = ''Got it, updated trading pair to BTC/USDT. How many units of BTC/USDT?'',
          timestamp = ''t2''\<rparr>,
         \<lparr>sender = User, msg_text = ''3'', timestamp = ''t1''\<rparr>,
         \<lparr>sender = Bot,
          msg_text = ''Got it, updated quantity to <number>. At what price? Just say the number.'',
          timestamp = ''t2''\<rparr>],
      ended = False, created = 0, current_step = Price, retry_count = 0\<rparr>"

text \<open>
  The fourth turn names the price while the exchange is offline: the order is complete.
\<close>

definition order_events :: "rat event list" where
  "order_events = quantity_events @ [say ''c1'' ''at 5'']"

definition order_store :: "rat store" where
  "order_store = fst (webhook demo_lib offline quantity_store (utter ''c1'' ''at 5''))"

text \<open>The store after a poll, ten seconds after the start, and an \<^verbatim>\<open>end_call\<close>.\<close>

definition later_events :: "rat event list" where
  "later_events = [Poll_messages ''c1'' 10, End_call (Some ''c1'')]"

definition later_store :: "rat store" where
  "later_store = fst (end_call (fst (poll_messages demo_lib 10 order_store ''c1'')) (Some ''c1''))"

text \<open>
  The store after a poll 301 seconds after the start instead: the sweep of that poll has
  deleted the session, which had ended.
\<close>

definition swept_store :: "rat store" where
  "swept_store = fst (poll_messages demo_lib 301 order_store ''c1'')"

section \<open>The claim's reading of the keyword rule\<close>

text \<open>
  Written from the words of the specification, not from the source: ``the value nearest
  that keyword''. \<open>nearest_number keyword s\<close> is the decimal literal of \<open>s\<close> with the fewest
  characters between it and an occurrence of \<open>keyword\<close>, the leftmost such literal when
  several are as near.
\<close>

definition occurrences :: "string \<Rightarrow> string \<Rightarrow> (nat \<times> nat) list" where
  "occurrences keyword s =
     map (\<lambda>k. (k, k + length keyword)) (filter (\<lambda>k. prefix keyword (drop k s)) [0..<length s])"

definition gap :: "nat \<times> nat \<Rightarrow> nat \<times> nat \<Rightarrow> nat" where
  "gap a b = (if snd a \<le> fst b then fst b - snd a else if snd b \<le> fst a then fst a - snd b else 0)"

definition nearest_number :: "string \<Rightarrow> string \<Rightarrow> string option" where
  "nearest_number keyword s =
     (let ks = occurrences keyword s; ns = spans_from number_rx s 0
      in if ks = [] \<or> ns = [] then None
         else Some (slice s (arg_min_list (\<lambda>n. min_list (map (gap n) ks)) ns)))"

section \<open>Facts about the model\<close>

text \<open>
  The recursive functions defined by \<^theory_text>\<open>function\<close> are unfolded by hand where a proof
  needs it.
\<close>

declare replace.simps [simp del] spans_from.simps [simp del] sub_from.simps [simp del]
  price_attempts.simps [simp del]

lemma price_attempts_last:
  "price_attempts w ex n 3 2 d =
     (case fetch_ticker w ex n 2 of Some p \<Rightarrow> (Some (Some p, None), [])
      | None \<Rightarrow> (Some (None, Some ''failed to fetch price''), []))"
  by (subst price_attempts.simps) (simp split: option.splits)

lemma price_attempts_second:
  "price_attempts w ex n 3 1 d =
     (case fetch_ticker w ex n 1 of Some p \<Rightarrow> (Some (Some p, None), [])
      | None \<Rightarrow> apsnd (Cons d) (price_attempts w ex n 3 2 (d * 2)))"
  by (subst price_attempts.simps) (simp add: eval_nat_numeral split: option.splits)

lemma price_attempts_first:
  "price_attempts w ex n 3 0 d =
     (case fetch_ticker w ex n 0 of Some p \<Rightarrow> (Some (Some p, None), [])
      | None \<Rightarrow> apsnd (Cons d) (price_attempts w ex n 3 1 (d * 2)))"
  by (subst price_attempts.simps) (simp split: option.splits)

lemma get_current_price_returns: "fst (get_current_price w ex pair 3 1) \<noteq> None"
  unfolding get_current_price_def price_attempts_first price_attempts_second price_attempts_last
  by (simp split: option.splits)

lemma get_current_price_fails:
  "\<forall>i<3. fetch_ticker w ex (normalize_symbol ex pair) i = None \<Longrightarrow>
   get_current_price w ex pair 3 1 = (Some (None, Some ''failed to fetch price''), [1, 2])"
  unfolding get_current_price_def price_attempts_first price_attempts_second price_attempts_last
  by simp

lemma fst_put [simp]:
  "fst (put_exchange e su) = fst su\<lparr>exchange := e\<rparr>"
  "fst (put_trading_pair s su) = fst su\<lparr>trading_pair := s\<rparr>"
  "fst (put_quantity lib q su) = fst su\<lparr>quantity := q\<rparr>"
  "fst (put_price lib p su) = fst su\<lparr>price := p\<rparr>"
  by (simp_all add: put_exchange_def put_trading_pair_def put_quantity_def put_price_def)

lemma snd_put [simp]:
  "snd (put_exchange e su) \<noteq> []"
  "snd (put_trading_pair s su) \<noteq> []"
  "snd (put_quantity lib q su) \<noteq> []"
  "snd (put_price lib p su) \<noteq> []"
  by (simp_all add: put_exchange_def put_trading_pair_def put_quantity_def put_price_def)

lemma stage_fst:
  "fst (if b then put_exchange e su else su) = fst su\<lparr>exchange := if b then e else exchange (fst su)\<rparr>"
  "fst (if b then put_trading_pair s su else su) =
     fst su\<lparr>trading_pair := if b then s else trading_pair (fst su)\<rparr>"
  "fst (if b then put_quantity lib q su else su) = fst su\<lparr>quantity := if b then q else quantity (fst su)\<rparr>"
  "fst (if b then put_price lib p su else su) = fst su\<lparr>price := if b then p else price (fst su)\<rparr>"
  by simp_all

lemma stage_snd:
  "snd (if b then put_exchange e su else su) = [] \<longleftrightarrow> \<not> b \<and> snd su = []"
  "snd (if b then put_trading_pair s su else su) = [] \<longleftrightarrow> \<not> b \<and> snd su = []"
  "snd (if b then put_quantity lib q su else su) = [] \<longleftrightarrow> \<not> b \<and> snd su = []"
  "snd (if b then put_price lib p su else su) = [] \<longleftrightarrow> \<not> b \<and> snd su = []"
  by simp_all

lemma update_slots_fst:
  "fst (update_slots lib c e s q p st) =
     st\<lparr>exchange := (if (c \<or> exchange st = None) \<and> str_truthy e then e else exchange st),
        trading_pair := (if (c \<or> trading_pair st = None) \<and> str_truthy s then s else trading_pair st),
        quantity := (if (c \<or> quantity st = None) \<and> q \<noteq> None then q else quantity st),
        price := (if (c \<or> price st = None) \<and> p \<noteq> None then p else price st)\<rparr>"
proof (cases c)
  case True
  then show ?thesis
    unfolding update_slots_def Let_def by (simp only: if_True stage_fst) simp
next
  case False
  then show ?thesis
    unfolding update_slots_def Let_def by (simp only: if_False stage_fst) simp
qed

lemma update_slots_none:
  "snd (update_slots lib c e s q p st) = [] \<longleftrightarrow>
     \<not> ((c \<or> exchange st = None) \<and> str_truthy e) \<and>
     \<not> ((c \<or> trading_pair st = None) \<and> str_truthy s) \<and>
     \<not> ((c \<or> quantity st = None) \<and> q \<noteq> None) \<and>
     \<not> ((c \<or> price st = None) \<and> p \<noteq> None)"
proof (cases c)
  case True
  then show ?thesis
    unfolding update_slots_def Let_def by (simp only: if_True stage_snd stage_fst) auto
next
  case False
  then show ?thesis
    unfolding update_slots_def Let_def by (simp only: if_False stage_snd stage_fst) auto
qed

lemma update_slots_exchange:
  "exchange (fst (update_slots lib c e s q p st)) =
     (if (c \<or> exchange st = None) \<and> str_truthy e then e else exchange st)"
  by (simp add: update_slots_fst)

lemma update_slots_trading_pair:
  "trading_pair (fst (update_slots lib c e s q p st)) =
     (if (c \<or> trading_pair st = None) \<and> str_truthy s then s else trading_pair st)"
  by (simp add: update_slots_fst)

lemma update_slots_quantity:
  "quantity (fst (update_slots lib c e s q p st)) =
     (if (c \<or> quantity st = None) \<and> q \<noteq> None then q else quantity st)"
  by (simp add: update_slots_fst)

lemma update_slots_price:
  "price (fst (update_slots lib c e s q p st)) =
     (if (c \<or> price st = None) \<and> p \<noteq> None then p else price st)"
  by (simp add: update_slots_fst)

lemma update_slots_rest:
  "messages (fst (update_slots lib c e s q p st)) = messages st"
  "ended (fst (update_slots lib c e s q p st)) = ended st"
  "created (fst (update_slots lib c e s q p st)) = created st"
  "current_step (fst (update_slots lib c e s q p st)) = current_step st"
  "retry_count (fst (update_slots lib c e s q p st)) = retry_count st"
  by (simp_all add: update_slots_fst)

lemma missing_slots_Nil: "missing_slots st = [] \<longleftrightarrow> all_slots_set st"
  by (simp add: missing_slots_def all_slots_set_def)

lemma missing_slots_Cons: "missing_slots st = n # rest \<Longrightarrow> \<not> all_slots_set st"
  using missing_slots_Nil [of st] by auto

lemma collect_rest [simp]:
  "messages (fst (collect lib st t nums)) = messages st"
  "ended (fst (collect lib st t nums)) = ended st"
  "created (fst (collect lib st t nums)) = created st"
  "current_step (fst (collect lib st t nums)) = current_step st"
  "retry_count (fst (collect lib st t nums)) = retry_count st"
  by (simp_all add: collect_def Let_def update_slots_rest)

lemma finalize_set:
  assumes "all_slots_set st"
  shows "\<exists>ex pair q p cp err.
           exchange st = Some ex \<and> trading_pair st = Some pair \<and> quantity st = Some q \<and>
           price st = Some p \<and> fst (get_current_price w ex pair 3 1) = Some (cp, err) \<and>
           finalize lib w st =
             (st\<lparr>ended := True, retry_count := 0\<rparr>,
              Inr (confirmation lib ex pair q p (price_msg lib cp err)))"
proof -
  from assms obtain ex pair q p where s:
    "exchange st = Some ex" "trading_pair st = Some pair" "quantity st = Some q" "price st = Some p"
    by (auto simp: all_slots_set_def)
  obtain cp err where g: "fst (get_current_price w ex pair 3 1) = Some (cp, err)"
    using get_current_price_returns [of w ex pair] by (cases "fst (get_current_price w ex pair 3 1)") auto
  show ?thesis using s g by (simp add: finalize_def)
qed

lemma py_index_prompts:
  "0 \<le> i \<Longrightarrow> py_index (prompts st n) (min i 2) = Some (prompts st n ! nat (min i 2))"
  by (cases n) (auto simp add: py_index_def Let_def)

lemma prompts_upd [simp]:
  "prompts (st\<lparr>current_step := n'\<rparr>) n = prompts st n"
  "prompts (st\<lparr>retry_count := k\<rparr>) n = prompts st n"
  by (cases n; simp)+

lemma ask_none:
  assumes "0 \<le> retry_count st"
  shows "ask st [] n =
           (st\<lparr>current_step := n, retry_count := retry_count st + 1\<rparr>,
            Inr (strip ('' '' @ prompts st n ! nat (min (retry_count st + 1) 2))))"
proof -
  have "0 \<le> retry_count st + 1" using assms by simp
  from py_index_prompts [OF this, of st n] have
    p: "py_index (prompts st n) (min (retry_count st + 1) 2) =
          Some (prompts st n ! nat (min (retry_count st + 1) 2))" .
  have r: "0 < min (retry_count st + 1) 2" using assms by simp
  have a: "ack [] = []" by (simp add: ack_def)
  have s: "st\<lparr>current_step := n, retry_count := retry_count (st\<lparr>current_step := n\<rparr>) + 1\<rparr> =
             st\<lparr>current_step := n, retry_count := retry_count st + 1\<rparr>"
    by simp
  have t: "retry_count (st\<lparr>current_step := n, retry_count := retry_count st + 1\<rparr>) = retry_count st + 1"
    by simp
  show ?thesis
    unfolding ask_def Let_def
    by (simp only: if_True refl s t prompts_upd p option.case r a simp_thms append_Nil)
qed

lemma ask_some:
  assumes "0 \<le> retry_count st" "upd \<noteq> []"
  shows "ask st upd n =
           (st\<lparr>current_step := n\<rparr>,
            Inr (strip (ack upd @ '' '' @ prompts st n ! nat (min (retry_count st) 2))))"
proof -
  from py_index_prompts [OF assms(1), of st n] have
    p: "py_index (prompts st n) (min (retry_count st) 2) =
          Some (prompts st n ! nat (min (retry_count st) 2))" .
  have a: "ack upd \<noteq> []" using assms(2) by (simp add: ack_def)
  have t: "retry_count (st\<lparr>current_step := n\<rparr>) = retry_count st"
    by simp
  show ?thesis
    unfolding ask_def Let_def
    by (simp only: assms(2) if_False t prompts_upd p option.case a simp_thms if_True)
qed

lemma respond_final:
  assumes "all_slots_set (fst (collect lib (heard w st t ts) t nums))"
  shows "\<exists>ex pair q p cp err.
           exchange (fst (collect lib (heard w st t ts) t nums)) = Some ex \<and>
           trading_pair (fst (collect lib (heard w st t ts) t nums)) = Some pair \<and>
           quantity (fst (collect lib (heard w st t ts) t nums)) = Some q \<and>
           price (fst (collect lib (heard w st t ts) t nums)) = Some p \<and>
           fst (get_current_price w ex pair 3 1) = Some (cp, err) \<and>
           respond lib w (heard w st t ts) t nums =
             (fst (collect lib (heard w st t ts) t nums)
                \<lparr>ended := True, retry_count := 0,
                 messages := messages st @ [user_message w t ts,
                    bot_message w (confirmation lib ex pair q p (price_msg lib cp err))]\<rparr>,
              Inr (confirmation lib ex pair q p (price_msg lib cp err)))"
proof -
  define st1 where "st1 = heard w st t ts"
  define st2 where "st2 = fst (collect lib st1 t nums)"
  define upd where "upd = snd (collect lib st1 t nums)"
  have c: "collect lib st1 t nums = (st2, upd)" by (simp add: st2_def upd_def)
  have a: "all_slots_set st2" using assms by (simp add: st2_def st1_def heard_def)
  from finalize_set [OF a, of w lib] obtain ex pair q p cp err where
    f: "exchange st2 = Some ex" "trading_pair st2 = Some pair" "quantity st2 = Some q"
       "price st2 = Some p" "fst (get_current_price w ex pair 3 1) = Some (cp, err)"
       "finalize lib w st2 =
          (st2\<lparr>ended := True, retry_count := 0\<rparr>,
           Inr (confirmation lib ex pair q p (price_msg lib cp err)))"
    by blast
  have m: "missing_slots st2 = []" using a by (simp add: missing_slots_Nil)
  have ms: "messages st2 = messages st @ [user_message w t ts]"
    by (simp add: st2_def st1_def heard_def)
  have "respond lib w (heard w st t ts) t nums =
          (st2\<lparr>ended := True, retry_count := 0,
               messages := messages st @ [user_message w t ts,
                  bot_message w (confirmation lib ex pair q p (price_msg lib cp err))]\<rparr>,
           Inr (confirmation lib ex pair q p (price_msg lib cp err)))"
    unfolding respond_def Let_def st1_def [symmetric] c
    by (simp add: m f(6) ms)
  with f(1-5) show ?thesis unfolding st2_def st1_def by blast
qed

lemma respond_ask:
  assumes "missing_slots (fst (collect lib (heard w st t ts) t nums)) = n # rest"
    and "0 \<le> retry_count st"
  shows "respond lib w (heard w st t ts) t nums =
           (let st2 = fst (collect lib (heard w st t ts) t nums);
                upd = snd (collect lib (heard w st t ts) t nums);
                k = (if upd = [] then retry_count st + 1 else retry_count st);
                resp = strip (ack upd @ '' '' @ prompts st2 n ! nat (min k 2))
            in (st2\<lparr>current_step := n, retry_count := k,
                    messages := messages st @ [user_message w t ts, bot_message w resp]\<rparr>,
                Inr resp))"
proof -
  define st1 where "st1 = heard w st t ts"
  define st2 where "st2 = fst (collect lib st1 t nums)"
  define upd where "upd = snd (collect lib st1 t nums)"
  have c: "collect lib st1 t nums = (st2, upd)" by (simp add: st2_def upd_def)
  have m: "missing_slots st2 = n # rest" using assms(1) by (simp add: st2_def st1_def heard_def)
  have r: "0 \<le> retry_count st2" "retry_count st2 = retry_count st"
    using assms(2) by (simp_all add: st2_def st1_def heard_def)
  have ms: "messages st2 = messages st @ [user_message w t ts]"
    by (simp add: st2_def st1_def heard_def)
  show ?thesis
  proof (cases "upd = []")
    case True
    have "respond lib w (heard w st t ts) t nums =
            (st2\<lparr>current_step := n, retry_count := retry_count st + 1,
                 messages := messages st @ [user_message w t ts,
                   bot_message w (strip ('' '' @ prompts st2 n ! nat (min (retry_count st + 1) 2)))]\<rparr>,
             Inr (strip ('' '' @ prompts st2 n ! nat (min (retry_count st + 1) 2))))"
      unfolding respond_def Let_def st1_def [symmetric] c
      using ask_none [OF r(1), of n] by (simp add: m True ms r(2))
    then show ?thesis
      unfolding Let_def st1_def [symmetric] st2_def [symmetric] upd_def [symmetric]
      by (simp add: True ack_def)
  next
    case False
    have "respond lib w (heard w st t ts) t nums =
            (st2\<lparr>current_step := n,
                 messages := messages st @ [user_message w t ts,
                   bot_message w (strip (ack upd @ '' '' @ prompts st2 n ! nat (min (retry_count st) 2)))]\<rparr>,
             Inr (strip (ack upd @ '' '' @ prompts st2 n ! nat (min (retry_count st) 2))))"
      unfolding respond_def Let_def st1_def [symmetric] c
      using ask_some [OF r(1) False, of n] by (simp add: m ms r(2))
    then show ?thesis
      unfolding Let_def st1_def [symmetric] st2_def [symmetric] upd_def [symmetric]
      by (simp add: False r(2) [symmetric])
  qed
qed

lemma webhook_live:
  assumes "req_call_id data = Some cid" "cid \<noteq> []" "S cid = Some st" "\<not> ended st"
  shows "webhook lib w S data =
           (S(cid \<mapsto> fst (turn lib w st (transcript_of data) (req_timestamp data))),
            snd (turn lib w st (transcript_of data) (req_timestamp data)))"
  using assms by (simp add: webhook_def Let_def split: prod.splits)

lemma webhook_cases:
  "fst (webhook lib w S data) = S \<and> (\<exists>e. snd (webhook lib w S data) = Inl e) \<or>
   (\<exists>cid st. req_call_id data = Some cid \<and> cid \<noteq> [] \<and> S cid = Some st \<and> \<not> ended st)"
  by (auto simp add: webhook_def Let_def split: option.splits)

lemma heard_fields [simp]:
  "exchange (heard w st t ts) = exchange st"
  "trading_pair (heard w st t ts) = trading_pair st"
  "quantity (heard w st t ts) = quantity st"
  "price (heard w st t ts) = price st"
  "ended (heard w st t ts) = ended st"
  "created (heard w st t ts) = created st"
  "current_step (heard w st t ts) = current_step st"
  "retry_count (heard w st t ts) = retry_count st"
  "messages (heard w st t ts) = messages st @ [user_message w t ts]"
  by (simp_all add: heard_def)

text \<open>What the response to a turn does, on a session whose retry counter is not negative.\<close>

lemma respond_summary:
  assumes "0 \<le> retry_count st"
  shows "\<exists>resp k step.
           respond lib w (heard w st t ts) t nums =
             (fst (collect lib (heard w st t ts) t nums)
                \<lparr>ended := all_slots_set (fst (collect lib (heard w st t ts) t nums)) \<or> ended st,
                 retry_count := k, current_step := step,
                 messages := messages st @ [user_message w t ts, bot_message w resp]\<rparr>,
              Inr resp) \<and> 0 \<le> k"
proof (cases "missing_slots (fst (collect lib (heard w st t ts) t nums))")
  case Nil
  then have a: "all_slots_set (fst (collect lib (heard w st t ts) t nums))"
    by (simp add: missing_slots_Nil)
  from respond_final [OF a] obtain ex pair q p cp err where
    "respond lib w (heard w st t ts) t nums =
       (fst (collect lib (heard w st t ts) t nums)
          \<lparr>ended := True, retry_count := 0,
           messages := messages st @ [user_message w t ts,
              bot_message w (confirmation lib ex pair q p (price_msg lib cp err))]\<rparr>,
        Inr (confirmation lib ex pair q p (price_msg lib cp err)))"
    by blast
  then have "respond lib w (heard w st t ts) t nums =
       (fst (collect lib (heard w st t ts) t nums)
          \<lparr>ended := all_slots_set (fst (collect lib (heard w st t ts) t nums)) \<or> ended st,
           retry_count := 0, current_step := current_step st,
           messages := messages st @ [user_message w t ts,
              bot_message w (confirmation lib ex pair q p (price_msg lib cp err))]\<rparr>,
        Inr (confirmation lib ex pair q p (price_msg lib cp err))) \<and> (0::int) \<le> 0"
    using a by simp
  then show ?thesis by blast
next
  case (Cons n rest)
  then have a: "\<not> all_slots_set (fst (collect lib (heard w st t ts) t nums))"
    by (rule missing_slots_Cons)
  define upd where "upd = snd (collect lib (heard w st t ts) t nums)"
  define k where "k = (if upd = [] then retry_count st + 1 else retry_count st)"
  define resp where
    "resp = strip (ack upd @ '' '' @ prompts (fst (collect lib (heard w st t ts) t nums)) n ! nat (min k 2))"
  have k: "0 \<le> k" using assms by (simp add: k_def)
  from respond_ask [OF Cons assms] have
    "respond lib w (heard w st t ts) t nums =
       (fst (collect lib (heard w st t ts) t nums)
          \<lparr>current_step := n, retry_count := k,
           messages := messages st @ [user_message w t ts, bot_message w resp]\<rparr>,
        Inr resp)"
    by (simp add: Let_def upd_def k_def resp_def)
  then have "respond lib w (heard w st t ts) t nums =
       (fst (collect lib (heard w st t ts) t nums)
          \<lparr>ended := all_slots_set (fst (collect lib (heard w st t ts) t nums)) \<or> ended st,
           retry_count := k, current_step := n,
           messages := messages st @ [user_message w t ts, bot_message w resp]\<rparr>,
        Inr resp)"
    using a by simp
  with k show ?thesis by blast
qed

text \<open>The two ways a turn goes: the numbers are there, or their extraction has raised.\<close>

lemma turn_answered:
  "numbers lib t = Inr nums \<Longrightarrow> turn lib w st t ts = respond lib w (heard w st t ts) t nums"
  by (simp add: turn_def)

lemma turn_crashed:
  "numbers lib t = Inl e \<Longrightarrow> turn lib w st t ts = (heard w st t ts, Inl e)"
  by (simp add: turn_def)

text \<open>
  A request whose number extraction raises leaves the user's message in the history,
  the slots as they were, and no response.
\<close>

lemma numbers_raises:
  "findall number_rx (lower t) = [] \<Longrightarrow> extract_number lib t = Inl e \<Longrightarrow> numbers lib t = Inl e"
  by (simp add: numbers_def)

lemma webhook_crashed:
  assumes "req_call_id data = Some cid" "cid \<noteq> []" "S cid = Some st" "\<not> ended st"
    and "numbers lib (transcript_of data) = Inl e"
  shows "webhook lib w S data =
           (S(cid \<mapsto> heard w st (transcript_of data) (req_timestamp data)), Inl e)"
proof -
  have "webhook lib w S data =
          (S(cid \<mapsto> fst (turn lib w st (transcript_of data) (req_timestamp data))),
           snd (turn lib w st (transcript_of data) (req_timestamp data)))"
    using assms(1-4) by (rule webhook_live)
  then show ?thesis by (simp add: turn_crashed [OF assms(5)])
qed

lemma store_ok_empty: "store_ok Map.empty"
  by (simp add: store_ok_def)

lemma turn_keeps_ok:
  assumes "0 \<le> retry_count st" "all_slots_set st \<longrightarrow> ended st"
  shows "0 \<le> retry_count (fst (turn lib w st t ts)) \<and>
         (all_slots_set (fst (turn lib w st t ts)) \<longrightarrow> ended (fst (turn lib w st t ts)))"
proof (cases "numbers lib t")
  case (Inl e)
  show ?thesis
    unfolding turn_crashed [OF Inl] using assms by (simp add: all_slots_set_def)
next
  case (Inr nums)
  from respond_summary [OF assms(1), of lib w t ts nums] obtain resp k step where
    t: "respond lib w (heard w st t ts) t nums =
          (fst (collect lib (heard w st t ts) t nums)
             \<lparr>ended := all_slots_set (fst (collect lib (heard w st t ts) t nums)) \<or> ended st,
              retry_count := k, current_step := step,
              messages := messages st @ [user_message w t ts, bot_message w resp]\<rparr>,
           Inr resp)" and k: "0 \<le> k"
    by blast
  show ?thesis
    unfolding turn_answered [OF Inr] t using k by (simp add: all_slots_set_def)
qed

lemma webhook_store_ok:
  assumes "store_ok S"
  shows "store_ok (fst (webhook lib w S data))"
proof -
  from webhook_cases [of lib w S data] show ?thesis
  proof
    assume "fst (webhook lib w S data) = S \<and> (\<exists>e. snd (webhook lib w S data) = Inl e)"
    with assms show ?thesis by simp
  next
    assume "\<exists>cid st. req_call_id data = Some cid \<and> cid \<noteq> [] \<and> S cid = Some st \<and> \<not> ended st"
    then obtain cid st where
      l: "req_call_id data = Some cid" "cid \<noteq> []" "S cid = Some st" "\<not> ended st"
      by blast
    from assms l(3) have r: "0 \<le> retry_count st" "all_slots_set st \<longrightarrow> ended st"
      by (simp_all add: store_ok_def)
    have wl: "webhook lib w S data =
                (S(cid \<mapsto> fst (turn lib w st (transcript_of data) (req_timestamp data))),
                 snd (turn lib w st (transcript_of data) (req_timestamp data)))"
      using l by (rule webhook_live)
    from turn_keeps_ok [OF r, of lib w "transcript_of data" "req_timestamp data"]
    show ?thesis
      using assms l(2) unfolding wl by (simp add: store_ok_def)
  qed
qed

lemma step_store_ok:
  assumes "store_ok S" "step lib S e = Some S'"
  shows "store_ok S'"
proof (cases e)
  case (Start_call cid now ts)
  with assms show ?thesis
    by (auto simp add: store_ok_def start_call_def all_slots_set_def split: if_splits)
next
  case (Webhook data w)
  with assms webhook_store_ok [OF assms(1), of lib w data] show ?thesis by simp
next
  case (Poll_messages cid now)
  with assms show ?thesis
    by (auto simp add: store_ok_def poll_messages_def cleanup_old_states_def Let_def
        split: option.splits if_splits)
next
  case (End_call c)
  with assms show ?thesis
    by (auto simp add: store_ok_def end_call_def all_slots_set_def split: option.splits if_splits)
qed

lemma run_store_ok:
  "store_ok S \<Longrightarrow> run lib S es = Some S' \<Longrightarrow> store_ok S'"
proof (induction es arbitrary: S)
  case Nil
  then show ?case by simp
next
  case (Cons e es)
  from Cons.prems(2) obtain S1 where s: "step lib S e = Some S1" "run lib S1 es = Some S'"
    by (auto split: option.splits)
  from step_store_ok [OF Cons.prems(1) s(1)] Cons.IH s(2) show ?case by blast
qed

lemma reachable_ok: "run lib Map.empty es = Some S \<Longrightarrow> store_ok S"
  using run_store_ok [OF store_ok_empty] by blast

text \<open>What the two branches of a turn leave untouched.\<close>

lemma finalize_keeps:
  "exchange (fst (finalize lib w st)) = exchange st"
  "trading_pair (fst (finalize lib w st)) = trading_pair st"
  "quantity (fst (finalize lib w st)) = quantity st"
  "price (fst (finalize lib w st)) = price st"
  "messages (fst (finalize lib w st)) = messages st"
  "created (fst (finalize lib w st)) = created st"
  by (simp_all add: finalize_def split: option.splits prod.splits)

lemma ask_keeps:
  "exchange (fst (ask st upd n)) = exchange st"
  "trading_pair (fst (ask st upd n)) = trading_pair st"
  "quantity (fst (ask st upd n)) = quantity st"
  "price (fst (ask st upd n)) = price st"
  "messages (fst (ask st upd n)) = messages st"
  "created (fst (ask st upd n)) = created st"
  "ended (fst (ask st upd n)) = ended st"
  by (simp_all add: ask_def Let_def split: option.splits)

text \<open>The state and the result of the branch a turn takes after the slot updates.\<close>

lemma respond_unfold:
  "respond lib w (heard w st t ts) t nums =
     (let r = (case missing_slots (fst (collect lib (heard w st t ts) t nums)) of
                 [] \<Rightarrow> finalize lib w (fst (collect lib (heard w st t ts) t nums))
               | n # _ \<Rightarrow> ask (fst (collect lib (heard w st t ts) t nums))
                            (snd (collect lib (heard w st t ts) t nums)) n)
      in case snd r of
           Inl e \<Rightarrow> (fst r, Inl e)
         | Inr resp \<Rightarrow> (fst r\<lparr>messages := messages (fst r) @ [bot_message w resp]\<rparr>, Inr resp))"
proof -
  obtain st2 upd where c: "collect lib (heard w st t ts) t nums = (st2, upd)"
    by (cases "collect lib (heard w st t ts) t nums")
  obtain st3 res where
    r: "(case missing_slots st2 of [] \<Rightarrow> finalize lib w st2 | n # _ \<Rightarrow> ask st2 upd n) = (st3, res)"
    by (cases "case missing_slots st2 of [] \<Rightarrow> finalize lib w st2 | n # _ \<Rightarrow> ask st2 upd n")
  show ?thesis
    unfolding respond_def Let_def c fst_conv snd_conv prod.case r by simp
qed

lemma respond_slots:
  "exchange (fst (respond lib w (heard w st t ts) t nums)) = exchange (fst (collect lib (heard w st t ts) t nums))"
  "trading_pair (fst (respond lib w (heard w st t ts) t nums)) = trading_pair (fst (collect lib (heard w st t ts) t nums))"
  "quantity (fst (respond lib w (heard w st t ts) t nums)) = quantity (fst (collect lib (heard w st t ts) t nums))"
  "price (fst (respond lib w (heard w st t ts) t nums)) = price (fst (collect lib (heard w st t ts) t nums))"
  "created (fst (respond lib w (heard w st t ts) t nums)) = created st"
  unfolding respond_unfold Let_def
  by (simp_all add: finalize_keeps ask_keeps split: sum.splits list.splits)

lemma respond_messages:
  "messages (fst (respond lib w (heard w st t ts) t nums)) =
     messages st @ user_message w t ts #
       (case snd (respond lib w (heard w st t ts) t nums) of
          Inl e \<Rightarrow> [] | Inr resp \<Rightarrow> [bot_message w resp])"
  unfolding respond_unfold Let_def
  by (simp add: finalize_keeps ask_keeps split: sum.splits list.splits)

lemma turn_messages:
  "messages (fst (turn lib w st t ts)) =
     messages st @ user_message w t ts #
       (case snd (turn lib w st t ts) of Inl e \<Rightarrow> [] | Inr resp \<Rightarrow> [bot_message w resp])"
  by (cases "numbers lib t") (simp_all add: turn_answered turn_crashed respond_messages)

lemma turn_created: "created (fst (turn lib w st t ts)) = created st"
  by (cases "numbers lib t") (simp_all add: turn_answered turn_crashed respond_slots)

text \<open>A request that is answered with a response came for a session that had not ended.\<close>

lemma webhook_accepted:
  assumes "webhook lib w S data = (S', Inr resp)" "req_call_id data = Some cid"
  shows "\<exists>st nums. cid \<noteq> [] \<and> S cid = Some st \<and> \<not> ended st \<and>
           numbers lib (transcript_of data) = Inr nums \<and>
           S' = S(cid \<mapsto> fst (respond lib w (heard w st (transcript_of data) (req_timestamp data))
                               (transcript_of data) nums)) \<and>
           snd (respond lib w (heard w st (transcript_of data) (req_timestamp data))
                  (transcript_of data) nums) = Inr resp"
proof -
  from webhook_cases [of lib w S data] assms(1) obtain c st where
    l: "req_call_id data = Some c" "c \<noteq> []" "S c = Some st" "\<not> ended st"
    by auto
  with assms(2) have c: "c = cid" by simp
  have wl: "webhook lib w S data =
          (S(c \<mapsto> fst (turn lib w st (transcript_of data) (req_timestamp data))),
           snd (turn lib w st (transcript_of data) (req_timestamp data)))"
    using l by (rule webhook_live)
  show ?thesis
  proof (cases "numbers lib (transcript_of data)")
    case (Inl e)
    from wl assms(1) show ?thesis by (simp add: turn_crashed [OF Inl])
  next
    case (Inr nums)
    from wl assms(1) l c Inr show ?thesis by (auto simp add: turn_answered [OF Inr])
  qed
qed

lemma collect_slots:
  "exchange (fst (collect lib st t nums)) =
     (if (is_correction (lower t) \<or> exchange st = None) \<and> str_truthy (extract_exchange t)
      then extract_exchange t else exchange st)"
  "trading_pair (fst (collect lib st t nums)) =
     (if (is_correction (lower t) \<or> trading_pair st = None) \<and> str_truthy (extract_trading_pair t)
      then extract_trading_pair t else trading_pair st)"
  "quantity (fst (collect lib st t nums)) =
     (if (is_correction (lower t) \<or> quantity st = None) \<and> qty_candidate nums (lower t) \<noteq> None
      then qty_candidate nums (lower t) else quantity st)"
  "price (fst (collect lib st t nums)) =
     (if (is_correction (lower t) \<or> price st = None) \<and>
         price_candidate lib nums (lower t) (quantity st) \<noteq> None
      then price_candidate lib nums (lower t) (quantity st) else price st)"
  by (simp_all add: collect_def Let_def update_slots_exchange update_slots_trading_pair
      update_slots_quantity update_slots_price)

text \<open>The history of a session across one request.\<close>

lemma step_history:
  assumes "step lib S e = Some S'" "S cid = Some st" "S' cid = Some st'"
  shows "prefix (messages st) (messages st')"
proof (cases e)
  case (Start_call c now ts)
  with assms show ?thesis
    by (auto simp add: start_call_def split: if_splits)
next
  case (Webhook data w)
  with assms(1) have s: "S' = fst (webhook lib w S data)" by simp
  from webhook_cases [of lib w S data] show ?thesis
  proof
    assume "fst (webhook lib w S data) = S \<and> (\<exists>e. snd (webhook lib w S data) = Inl e)"
    with s assms(2,3) show ?thesis by simp
  next
    assume "\<exists>c st0. req_call_id data = Some c \<and> c \<noteq> [] \<and> S c = Some st0 \<and> \<not> ended st0"
    then obtain c st0 where
      l: "req_call_id data = Some c" "c \<noteq> []" "S c = Some st0" "\<not> ended st0"
      by blast
    have wl: "webhook lib w S data =
                (S(c \<mapsto> fst (turn lib w st0 (transcript_of data) (req_timestamp data))),
                 snd (turn lib w st0 (transcript_of data) (req_timestamp data)))"
      using l by (rule webhook_live)
    show ?thesis
    proof (cases "c = cid")
      case True
      with l(3) assms(2) have "st0 = st" by simp
      with True s wl assms(3) have
        "st' = fst (turn lib w st (transcript_of data) (req_timestamp data))"
        by simp
      then show ?thesis by (simp add: turn_messages)
    next
      case False
      with s wl assms(2,3) show ?thesis by simp
    qed
  qed
next
  case (Poll_messages c now)
  with assms show ?thesis
    by (auto simp add: poll_messages_def cleanup_old_states_def Let_def split: option.splits if_splits)
next
  case (End_call c)
  with assms show ?thesis
    by (auto simp add: end_call_def split: option.splits if_splits)
qed

lemma live_turn_answers:
  assumes "run lib Map.empty es = Some S" "req_call_id data = Some cid" "S cid = Some st"
    "\<not> ended st" "numbers lib (transcript_of data) = Inr nums"
  shows "\<exists>resp. snd (webhook lib w S data) = Inr resp"
proof -
  from reachable_ok [OF assms(1)] assms(3) have c: "cid \<noteq> []" and r: "0 \<le> retry_count st"
    by (auto simp add: store_ok_def)
  have wl: "webhook lib w S data =
              (S(cid \<mapsto> fst (turn lib w st (transcript_of data) (req_timestamp data))),
               snd (turn lib w st (transcript_of data) (req_timestamp data)))"
    using assms(2) c assms(3,4) by (rule webhook_live)
  from respond_summary [OF r, of lib w "transcript_of data" "req_timestamp data" nums]
  show ?thesis unfolding wl turn_answered [OF assms(5)] by auto
qed

text \<open>The first character of a response.\<close>

lemma strip_keeps_head: "\<not> is_space c \<Longrightarrow> \<exists>r. strip (c # s) = c # r"
proof -
  assume c: "\<not> is_space c"
  have "dropWhile is_space (rev s @ [c]) = dropWhile is_space (rev s) @ [c] \<or>
        dropWhile is_space (rev s @ [c]) = [c]"
    using c by (simp add: dropWhile_append)
  then have "rev (dropWhile is_space (rev s @ [c])) = c # rev (dropWhile is_space (rev s)) \<or>
             rev (dropWhile is_space (rev s @ [c])) = [c]"
    by auto
  then obtain r where "rev (dropWhile is_space (rev s @ [c])) = c # r" by blast
  then have "strip (c # s) = c # r" using c by (simp add: strip_def)
  then show ?thesis by blast
qed

lemma strip_space: "strip (CHR '' '' # s) = strip s"
  by (simp add: strip_def is_space_def)

lemma prompts_head:
  "i < 3 \<Longrightarrow> \<exists>c r. prompts st n ! i = c # r \<and> \<not> is_space c \<and> c \<noteq> CHR ''S''"
proof -
  assume "i < 3"
  then have "i = 0 \<or> i = 1 \<or> i = 2" by auto
  then show ?thesis
    by (cases n) (auto simp add: is_space_def)
qed

lemma ack_head: "upd \<noteq> [] \<Longrightarrow> \<exists>r. ack upd = CHR ''G'' # r"
  by (simp add: ack_def)

lemma prompt_not_fallback:
  assumes "a = [] \<or> (\<exists>r. a = CHR ''G'' # r)" "i < 3"
  shows "strip (a @ '' '' @ prompts st n ! i) \<noteq> fallback_response"
proof -
  from prompts_head [OF assms(2), of st n] obtain c r where
    p: "prompts st n ! i = c # r" "\<not> is_space c" "c \<noteq> CHR ''S''"
    by blast
  from assms(1) show ?thesis
  proof
    assume "a = []"
    then have "strip (a @ '' '' @ prompts st n ! i) = strip (c # r)"
      by (simp add: p(1) strip_space)
    with strip_keeps_head [OF p(2), of r] p(3) show ?thesis
      by (auto simp add: fallback_response_def)
  next
    assume "\<exists>r. a = CHR ''G'' # r"
    then obtain r' where "a = CHR ''G'' # r'" by blast
    then have "strip (a @ '' '' @ prompts st n ! i) = strip (CHR ''G'' # (r' @ '' '' @ prompts st n ! i))"
      by simp
    moreover have "\<not> is_space CHR ''G''" by (simp add: is_space_def)
    from strip_keeps_head [OF this, of "r' @ '' '' @ prompts st n ! i"]
    obtain r'' where "strip (CHR ''G'' # (r' @ '' '' @ prompts st n ! i)) = CHR ''G'' # r''"
      by blast
    ultimately show ?thesis by (simp add: fallback_response_def)
  qed
qed

lemma confirmation_not_fallback: "confirmation lib ex pair q p m \<noteq> fallback_response"
  by (simp add: confirmation_def check_mark_def fallback_response_def)

lemma prompts_pair: "trading_pair a = trading_pair b \<Longrightarrow> prompts a n = prompts b n"
  by (cases n) simp_all

text \<open>The ended flag and the slots of a session across the requests of a run.\<close>

lemma webhook_session:
  assumes "S cid = Some st" "0 \<le> retry_count st" "all_slots_set st \<longrightarrow> ended st"
  shows "\<exists>st'. fst (webhook lib w S data) cid = Some st' \<and>
               (st' = st \<or> \<not> ended st \<and> (ended st' \<longleftrightarrow> all_slots_set st'))"
proof (cases "req_call_id data = Some cid \<and> cid \<noteq> [] \<and> \<not> ended st")
  case True
  then have wl: "webhook lib w S data =
              (S(cid \<mapsto> fst (turn lib w st (transcript_of data) (req_timestamp data))),
               snd (turn lib w st (transcript_of data) (req_timestamp data)))"
    using assms(1) by (simp add: webhook_live)
  have "ended (fst (turn lib w st (transcript_of data) (req_timestamp data))) \<longleftrightarrow>
        all_slots_set (fst (turn lib w st (transcript_of data) (req_timestamp data)))"
  proof (cases "numbers lib (transcript_of data)")
    case (Inl e)
    show ?thesis
      unfolding turn_crashed [OF Inl] using True assms(3) by (simp add: all_slots_set_def)
  next
    case (Inr nums)
    from respond_summary [OF assms(2), of lib w "transcript_of data" "req_timestamp data" nums]
    obtain resp k n where
      t: "respond lib w (heard w st (transcript_of data) (req_timestamp data)) (transcript_of data) nums =
            (fst (collect lib (heard w st (transcript_of data) (req_timestamp data))
                    (transcript_of data) nums)
               \<lparr>ended := all_slots_set (fst (collect lib (heard w st (transcript_of data)
                            (req_timestamp data)) (transcript_of data) nums)) \<or> ended st,
                retry_count := k, current_step := n,
                messages := messages st @ [user_message w (transcript_of data) (req_timestamp data),
                   bot_message w resp]\<rparr>,
             Inr resp)"
      by blast
    show ?thesis
      unfolding turn_answered [OF Inr] t using True by (simp add: all_slots_set_def)
  qed
  with True show ?thesis unfolding wl by simp
next
  case False
  then have "fst (webhook lib w S data) cid = S cid"
    using assms(1) by (auto simp add: webhook_def Let_def split: option.splits prod.splits)
  with assms(1) show ?thesis by simp
qed

lemma step_ended_slots:
  assumes "store_ok S" "step lib S e = Some S'" "e \<noteq> End_call (Some cid)"
    and "\<forall>st. S cid = Some st \<longrightarrow> ended st \<longrightarrow> all_slots_set st"
    and "S' cid = Some st'" "ended st'"
  shows "all_slots_set st'"
proof (cases e)
  case (Start_call c now ts)
  with assms show ?thesis
    by (auto simp add: start_call_def split: if_splits)
next
  case (Webhook data w)
  with assms(2) have s: "S' = fst (webhook lib w S data)" by simp
  show ?thesis
  proof (cases "S cid")
    case None
    then have "fst (webhook lib w S data) cid = None"
      by (auto simp add: webhook_def Let_def split: option.splits prod.splits)
    with s assms(5) show ?thesis by simp
  next
    case (Some st)
    with assms(1) have r: "0 \<le> retry_count st" "all_slots_set st \<longrightarrow> ended st"
      by (simp_all add: store_ok_def)
    from webhook_session [where S = S and cid = cid and st = st and lib = lib and w = w
        and data = data, OF Some r] s assms(4-6) Some show ?thesis
      by auto
  qed
next
  case (Poll_messages c now)
  with assms show ?thesis
    by (auto simp add: poll_messages_def cleanup_old_states_def Let_def split: option.splits if_splits)
next
  case (End_call c)
  with assms show ?thesis
    by (auto simp add: end_call_def split: option.splits if_splits)
qed

lemma run_ended_slots:
  "store_ok S \<Longrightarrow> run lib S es = Some S' \<Longrightarrow> End_call (Some cid) \<notin> set es \<Longrightarrow>
   \<forall>st. S cid = Some st \<longrightarrow> ended st \<longrightarrow> all_slots_set st \<Longrightarrow>
   S' cid = Some st' \<Longrightarrow> ended st' \<Longrightarrow> all_slots_set st'"
proof (induction es arbitrary: S)
  case Nil
  then show ?case by simp
next
  case (Cons e es)
  from Cons.prems(2) obtain S1 where s: "step lib S e = Some S1" "run lib S1 es = Some S'"
    by (auto split: option.splits)
  from Cons.prems(3) have n: "e \<noteq> End_call (Some cid)" "End_call (Some cid) \<notin> set es"
    by auto
  have ok: "store_ok S1" using Cons.prems(1) s(1) by (rule step_store_ok)
  have "\<forall>st. S1 cid = Some st \<longrightarrow> ended st \<longrightarrow> all_slots_set st"
    using step_ended_slots [OF Cons.prems(1) s(1) n(1) Cons.prems(4)] by blast
  from Cons.IH [OF ok s(2) n(2) this Cons.prems(5,6)] show ?case .
qed

text \<open>An ended session stays as it is until the sweep deletes it.\<close>

lemma step_ended_same:
  assumes "step lib S e = Some S'" "\<forall>now ts. e \<noteq> Start_call cid now ts"
    and "S cid = None \<or> S cid = Some st \<and> ended st"
  shows "S' cid = None \<or> S' cid = Some st \<and> S cid = Some st"
proof (cases e)
  case (Start_call c now ts)
  with assms show ?thesis
    by (auto simp add: start_call_def split: if_splits)
next
  case (Webhook data w)
  with assms(1) have s: "S' = fst (webhook lib w S data)" by simp
  from assms(3) have "fst (webhook lib w S data) cid = S cid"
    by (auto simp add: webhook_def Let_def split: option.splits prod.splits)
  with s assms(3) show ?thesis by auto
next
  case (Poll_messages c now)
  with assms show ?thesis
    by (auto simp add: poll_messages_def cleanup_old_states_def Let_def split: option.splits if_splits)
next
  case (End_call c)
  with assms show ?thesis
    by (auto simp add: end_call_def split: option.splits if_splits)
qed

lemma run_ended_same:
  "run lib S es = Some S' \<Longrightarrow> \<forall>now ts. Start_call cid now ts \<notin> set es \<Longrightarrow>
   S cid = None \<or> S cid = Some st \<and> ended st \<Longrightarrow> S' cid = None \<or> S' cid = Some st"
proof (induction es arbitrary: S)
  case Nil
  then show ?case by auto
next
  case (Cons e es)
  from Cons.prems(1) obtain S1 where s: "step lib S e = Some S1" "run lib S1 es = Some S'"
    by (auto split: option.splits)
  from Cons.prems(2) have n: "\<forall>now ts. e \<noteq> Start_call cid now ts"
    "\<forall>now ts. Start_call cid now ts \<notin> set es"
    by auto
  from step_ended_same [OF s(1) n(1) Cons.prems(3)] Cons.prems(3)
  have "S1 cid = None \<or> S1 cid = Some st \<and> ended st" by auto
  from Cons.IH [OF s(2) n(2) this] show ?case .
qed

lemma run_absent_stays:
  "run lib S es = Some S' \<Longrightarrow> \<forall>now ts. Start_call cid now ts \<notin> set es \<Longrightarrow> S cid = None \<Longrightarrow>
   S' cid = None"
proof (induction es arbitrary: S)
  case Nil
  then show ?case by simp
next
  case (Cons e es)
  from Cons.prems(1) obtain S1 where s: "step lib S e = Some S1" "run lib S1 es = Some S'"
    by (auto split: option.splits)
  from Cons.prems(2) have n: "\<forall>now ts. e \<noteq> Start_call cid now ts"
    "\<forall>now ts. Start_call cid now ts \<notin> set es"
    by auto
  from step_ended_same [OF s(1) n(1)] Cons.prems(3) have "S1 cid = None" by auto
  from Cons.IH [OF s(2) n(2) this] show ?case .
qed

text \<open>The one request that takes an ended session out of the store is a poll that sweeps it.\<close>

lemma step_ended_swept:
  assumes "step lib S e = Some S'" "\<forall>now ts. e \<noteq> Start_call cid now ts"
    and "S cid = Some st" "ended st"
  shows "S' cid = (if sweeps lib st e then None else Some st)"
proof (cases e)
  case (Start_call c now ts)
  with assms show ?thesis
    by (auto simp add: start_call_def sweeps_def split: if_splits)
next
  case (Webhook data w)
  with assms(1) have s: "S' = fst (webhook lib w S data)" by simp
  from assms(3,4) have "fst (webhook lib w S data) cid = S cid"
    by (auto simp add: webhook_def Let_def split: option.splits prod.splits)
  with s assms(3) Webhook show ?thesis by (simp add: sweeps_def)
next
  case (Poll_messages c now)
  with assms show ?thesis
    by (auto simp add: poll_messages_def cleanup_old_states_def Let_def sweeps_def
        split: option.splits if_splits)
next
  case (End_call c)
  from assms(4) have "st\<lparr>ended := True\<rparr> = st" by simp
  with End_call assms show ?thesis
    by (auto simp add: end_call_def sweeps_def split: option.splits if_splits)
qed

lemma run_ended_swept:
  "run lib S es = Some S' \<Longrightarrow> \<forall>now ts. Start_call cid now ts \<notin> set es \<Longrightarrow>
   S cid = Some st \<Longrightarrow> ended st \<Longrightarrow>
   S' cid = (if list_ex (sweeps lib st) es then None else Some st)"
proof (induction es arbitrary: S)
  case Nil
  then show ?case by simp
next
  case (Cons e es)
  from Cons.prems(1) obtain S1 where s: "step lib S e = Some S1" "run lib S1 es = Some S'"
    by (auto split: option.splits)
  from Cons.prems(2) have n: "\<forall>now ts. e \<noteq> Start_call cid now ts"
    "\<forall>now ts. Start_call cid now ts \<notin> set es"
    by auto
  note one = step_ended_swept [OF s(1) n(1) Cons.prems(3,4)]
  show ?case
  proof (cases "sweeps lib st e")
    case True
    with one have "S1 cid = None" by simp
    from run_absent_stays [OF s(2) n(2) this] True show ?thesis by simp
  next
    case False
    with one have "S1 cid = Some st" by simp
    from Cons.IH [OF s(2) n(2) this Cons.prems(4)] False show ?thesis by simp
  qed
qed

text \<open>Across one request a session keeps its history or is swept.\<close>

lemma webhook_keeps_session:
  "S cid = Some st \<Longrightarrow> fst (webhook lib w S data) cid \<noteq> None"
  by (auto simp add: webhook_def Let_def split: option.splits prod.splits)

lemma step_keeps_or_sweeps:
  assumes "step lib S e = Some S'" "S cid = Some st"
  shows "if ended st \<and> sweeps lib st e then S' cid = None
         else \<exists>st'. S' cid = Some st' \<and> prefix (messages st) (messages st')"
proof (cases e)
  case (Start_call c now ts)
  with assms show ?thesis
    by (auto simp add: start_call_def sweeps_def split: if_splits)
next
  case (Webhook data w)
  with assms(1) have s: "S' = fst (webhook lib w S data)" by simp
  from webhook_keeps_session [where S = S and cid = cid and st = st and lib = lib and w = w
      and data = data] assms(2) s obtain st' where
    t: "S' cid = Some st'" by auto
  from step_history [OF assms(1,2) t] t Webhook show ?thesis
    by (simp add: sweeps_def)
next
  case (Poll_messages c now)
  with assms show ?thesis
    by (auto simp add: poll_messages_def cleanup_old_states_def Let_def sweeps_def
        split: option.splits if_splits)
next
  case (End_call c)
  with assms show ?thesis
    by (auto simp add: end_call_def sweeps_def split: option.splits if_splits)
qed

lemma run_run:
  "run lib S es = Some S1 \<Longrightarrow> run lib S1 es' = Some S' \<Longrightarrow> run lib S (es @ es') = Some S'"
  by (induction es arbitrary: S) (auto split: option.splits)

lemma run_append:
  "run lib S (es @ es') = (case run lib S es of None \<Rightarrow> None | Some S1 \<Rightarrow> run lib S1 es')"
  by (induction es arbitrary: S) (simp_all split: option.splits)

text \<open>The runs of \<open>quantity_events\<close> and \<open>order_events\<close> and the sessions they leave.\<close>

lemma quantity_run: "run demo_lib Map.empty quantity_events = Some quantity_store"
  by (simp add: quantity_store_def quantity_events_def say_def)

lemma quantity_session: "quantity_store ''c1'' = Some awaiting_price"
  by code_simp

lemma order_run: "run demo_lib Map.empty order_events = Some order_store"
  by (simp add: order_events_def run_append quantity_run order_store_def say_def)

lemma utter_fields [simp]:
  "req_call_id (utter c t) = Some c" "req_timestamp (utter c t) = None"
  by (simp_all add: utter_def)

lemma awaiting_price_live: "\<not> ended awaiting_price"
  by (simp add: awaiting_price_def)

lemma quantity_store_webhook:
  "webhook demo_lib w quantity_store (utter ''c1'' t) =
     (quantity_store(''c1'' \<mapsto> fst (turn demo_lib w awaiting_price (transcript_of (utter ''c1'' t)) None)),
      snd (turn demo_lib w awaiting_price (transcript_of (utter ''c1'' t)) None))"
  using webhook_live [of "utter ''c1'' t" "''c1''" quantity_store awaiting_price demo_lib w]
  by (simp add: quantity_session awaiting_price_live)

lemma order_session:
  "map_option (\<lambda>st. (exchange st, trading_pair st, quantity st, price st, ended st, retry_count st))
     (order_store ''c1'') = Some (Some ''okx'', Some ''BTC/USDT'', Some 3, Some 5, True, 0)"
proof -
  have "(\<lambda>st. (exchange st, trading_pair st, quantity st, price st, ended st, retry_count st))
          (fst (turn demo_lib offline awaiting_price (transcript_of (utter ''c1'' ''at 5'')) None)) =
        (Some ''okx'', Some ''BTC/USDT'', Some 3, Some 5, True, 0)"
    by code_simp
  then show ?thesis
    by (simp add: order_store_def quantity_store_webhook)
qed

text \<open>The correction ``actually 7'' on the session that awaits the price.\<close>

lemma turn_actually_7:
  "\<not> isl (snd (turn demo_lib offline awaiting_price (transcript_of (utter ''c1'' ''actually 7'')) None))"
  by code_simp

lemma actually_7_reading:
  "is_correction (lower (transcript_of (utter ''c1'' ''actually 7''))) \<and>
   findall number_rx (lower (transcript_of (utter ''c1'' ''actually 7''))) = [''7''] \<and>
   \<not> substr_in ''at'' (lower (transcript_of (utter ''c1'' ''actually 7'')))"
  by code_simp

text \<open>The turn ``at 5'' on the session that awaits the price, with the exchange offline.\<close>

lemma turn_at_5:
  "\<not> isl (snd (turn demo_lib offline awaiting_price (transcript_of (utter ''c1'' ''at 5'')) None))"
  by code_simp

lemma numbers_at_5: "numbers demo_lib (transcript_of (utter ''c1'' ''at 5'')) = Inr [Some 5]"
  by code_simp

lemma collect_at_5:
  "(\<lambda>s. (exchange s, trading_pair s, quantity s, price s))
     (fst (collect demo_lib
        (heard offline awaiting_price (transcript_of (utter ''c1'' ''at 5'')) None)
        (transcript_of (utter ''c1'' ''at 5'')) [Some 5])) =
   (Some ''okx'', Some ''BTC/USDT'', Some 3, Some 5)"
  by code_simp

lemma order_store_session:
  "order_store ''c1'' =
     Some (fst (turn demo_lib offline awaiting_price (transcript_of (utter ''c1'' ''at 5'')) None))"
  by (simp add: order_store_def quantity_store_webhook)

lemma order_webhook:
  "\<exists>resp. webhook demo_lib offline quantity_store (utter ''c1'' ''at 5'') = (order_store, Inr resp)"
proof -
  from turn_at_5 obtain resp where
    "snd (turn demo_lib offline awaiting_price (transcript_of (utter ''c1'' ''at 5'')) None) = Inr resp"
    by (cases "snd (turn demo_lib offline awaiting_price (transcript_of (utter ''c1'' ''at 5'')) None)")
      auto
  then have "webhook demo_lib offline quantity_store (utter ''c1'' ''at 5'') = (order_store, Inr resp)"
    by (simp add: order_store_def quantity_store_webhook)
  then show ?thesis ..
qed

text \<open>The session of the order has ended; a poll 301 seconds after its start deletes it.\<close>

lemma order_ended_created:
  "\<exists>st. order_store ''c1'' = Some st \<and> ended st \<and> created st = 0"
proof -
  define st where
    "st = fst (turn demo_lib offline awaiting_price (transcript_of (utter ''c1'' ''at 5'')) None)"
  have s: "order_store ''c1'' = Some st"
    by (simp add: st_def order_store_session)
  from order_session have e: "ended st" by (simp add: s)
  have c: "created st = 0"
    by (simp add: st_def turn_created awaiting_price_def)
  from s e c show ?thesis by blast
qed

lemma later_run: "run demo_lib order_store later_events = Some later_store"
  by (simp add: later_events_def later_store_def)

lemma later_session: "later_store ''c1'' = order_store ''c1''"
proof -
  from order_ended_created obtain st where
    s: "order_store ''c1'' = Some st" "ended st" "created st = 0"
    by blast
  from s(2) have "st\<lparr>ended := True\<rparr> = st" by simp
  then show ?thesis
    by (simp add: later_store_def end_call_def poll_messages_def cleanup_old_states_def Let_def
        s demo_lib_def)
qed

lemma swept_run: "run demo_lib order_store [Poll_messages ''c1'' 301] = Some swept_store"
  by (simp add: swept_store_def)

lemma swept_session: "swept_store ''c1'' = None"
proof -
  from order_ended_created obtain st where
    s: "order_store ''c1'' = Some st" "ended st" "created st = 0"
    by blast
  then show ?thesis
    by (simp add: swept_store_def poll_messages_def cleanup_old_states_def Let_def demo_lib_def)
qed

lemma swept_poll: "snd (poll_messages demo_lib 301 order_store ''c1'') = Inl Session_not_found"
proof -
  from order_ended_created obtain st where
    s: "order_store ''c1'' = Some st" "ended st" "created st = 0"
    by blast
  then have "cleanup_old_states demo_lib 301 order_store ''c1'' = None"
    by (simp add: cleanup_old_states_def demo_lib_def)
  then show ?thesis by (simp add: poll_messages_def Let_def)
qed

lemma swept_webhook:
  "webhook demo_lib w swept_store (utter ''c1'' t) = (swept_store, Inl Invalid_call_id)"
  by (simp add: webhook_def Let_def swept_session)

lemma order_history:
  "\<exists>resp. map_option messages (order_store ''c1'') =
     Some (messages awaiting_price @
             [user_message offline (transcript_of (utter ''c1'' ''at 5'')) None,
              bot_message offline resp])"
proof -
  from turn_at_5 obtain resp where
    "snd (turn demo_lib offline awaiting_price (transcript_of (utter ''c1'' ''at 5'')) None) = Inr resp"
    by (cases "snd (turn demo_lib offline awaiting_price (transcript_of (utter ''c1'' ''at 5'')) None)")
      auto
  then have "map_option messages (order_store ''c1'') =
     Some (messages awaiting_price @
             [user_message offline (transcript_of (utter ''c1'' ''at 5'')) None,
              bot_message offline resp])"
    by (simp add: order_store_session turn_messages)
  then show ?thesis ..
qed

lemma okx_display: "exchange_display ''okx'' = ''OKX''"
  by code_simp

lemma transcript_at_5: "transcript_of (utter ''c1'' ''at 5'') = ''at 5''"
  by code_simp

text \<open>A turn without anything to extract, on the session that awaits the price.\<close>

lemma turn_hello:
  "snd (turn demo_lib offline awaiting_price (transcript_of (utter ''c1'' ''hello'')) None) =
     Inr ''Please say the price (e.g., 2000).''"
  by code_simp

text \<open>How two transcripts are read.\<close>

lemma readings_at_100_for_5:
  "substr_in ''at'' (lower ''at 100 for 5'') \<and>
   findall number_rx (lower ''at 100 for 5'') = [''100'', ''5''] \<and>
   float_of demo_lib ''100'' = 100 \<and> float_of demo_lib ''5'' = 5"
  by code_simp

lemma readings_7:
  "\<not> substr_in ''at'' (lower ''7'') \<and> findall number_rx (lower ''7'') = [''7''] \<and>
   float_of demo_lib ''7'' = 7"
  by code_simp

lemma numbers_actually_7:
  "numbers demo_lib (transcript_of (utter ''c1'' ''actually 7'')) = Inr [Some 7]"
  by code_simp

section \<open>The claims\<close>

text \<open>
  Claim C3, as amended. Once a session has ended, whatever requests follow (none of
  them starts a session under the same call id, a \<^verbatim>\<open>uuid4\<close>): as long as no poll has come
  more than 300 seconds after the session was created, the store holds the session as
  it was, and every \<^verbatim>\<open>webhook\<close> request for it is answered with the error ``Session has
  ended'' and changes nothing, so that the slots, the history and the ended flag are
  what they were; once such a poll has come, its sweep has deleted the session, and
  every \<^verbatim>\<open>webhook\<close> request for it is answered with the error ``Invalid call ID'' and
  changes nothing.
\<close>

theorem ended_session_rejects:
  assumes "run lib Map.empty es = Some S" "S cid = Some st" "ended st"
    and "run lib S es' = Some S'" "\<forall>now ts. Start_call cid now ts \<notin> set es'"
    and "req_call_id data = Some cid"
  shows "if list_ex (sweeps lib st) es'
         then S' cid = None \<and> webhook lib w S' data = (S', Inl Invalid_call_id)
         else S' cid = Some st \<and> webhook lib w S' data = (S', Inl Session_ended)"
proof (cases "list_ex (sweeps lib st) es'")
  case True
  with run_ended_swept [OF assms(4,5,2,3)] have s: "S' cid = None" by simp
  with assms(6) have "webhook lib w S' data = (S', Inl Invalid_call_id)"
    by (simp add: webhook_def Let_def)
  with s True show ?thesis by simp
next
  case False
  with run_ended_swept [OF assms(4,5,2,3)] have s: "S' cid = Some st" by simp
  have "run lib Map.empty (es @ es') = Some S'"
    using assms(1,4) by (rule run_run)
  from reachable_ok [OF this] s have "cid \<noteq> []"
    by (auto simp add: store_ok_def)
  with assms(3,6) s have "webhook lib w S' data = (S', Inl Session_ended)"
    by (simp add: webhook_def Let_def)
  with s False show ?thesis by simp
qed

theorem ended_session_rejects_witness:
  "run demo_lib Map.empty order_events = Some order_store \<and>
   map_option ended (order_store ''c1'') = Some True \<and>
   run demo_lib order_store later_events = Some later_store \<and>
   later_store ''c1'' = order_store ''c1'' \<and>
   webhook demo_lib offline later_store (utter ''c1'' ''at 7'') = (later_store, Inl Session_ended) \<and>
   run demo_lib order_store [Poll_messages ''c1'' 301] = Some swept_store \<and>
   swept_store ''c1'' = None \<and>
   webhook demo_lib offline swept_store (utter ''c1'' ''at 7'') = (swept_store, Inl Invalid_call_id)"
proof -
  from order_ended_created obtain st where
    s: "order_store ''c1'' = Some st" "ended st" "created st = 0"
    by blast
  have n: "\<forall>now ts. Start_call ''c1'' now ts \<notin> set later_events"
    by (simp add: later_events_def)
  have n': "\<forall>now ts. Start_call ''c1'' now ts \<notin> set [Poll_messages ''c1'' 301]"
    by simp
  have d: "req_call_id (utter ''c1'' ''at 7'') = Some ''c1''" by simp
  have k: "\<not> list_ex (sweeps demo_lib st) later_events"
    by (simp add: later_events_def sweeps_def s(3) demo_lib_def)
  have k': "list_ex (sweeps demo_lib st) [Poll_messages ''c1'' 301]"
    by (simp add: sweeps_def s(3) demo_lib_def)
  from ended_session_rejects [OF order_run s(1,2) later_run n d, of offline] k have
    a: "later_store ''c1'' = Some st"
       "webhook demo_lib offline later_store (utter ''c1'' ''at 7'') = (later_store, Inl Session_ended)"
    by simp_all
  from ended_session_rejects [OF order_run s(1,2) swept_run n' d, of offline] k' have
    b: "swept_store ''c1'' = None"
       "webhook demo_lib offline swept_store (utter ''c1'' ''at 7'') = (swept_store, Inl Invalid_call_id)"
    by simp_all
  from order_run s(1,2) later_run swept_run a b show ?thesis by simp
qed

text \<open>
  Claim C3 as it was stated says that every \<^verbatim>\<open>webhook\<close> request for a session that has
  ended is answered with the error ``Session has ended''. The session of the order has
  ended; a poll 301 seconds after its start sweeps it out of the store, and the request
  that follows for it is answered with the error ``Invalid call ID''.
\<close>

theorem swept_session_is_invalid:
  "run demo_lib Map.empty order_events = Some order_store \<and>
   map_option ended (order_store ''c1'') = Some True \<and>
   step demo_lib order_store (Poll_messages ''c1'' 301) = Some swept_store \<and>
   webhook demo_lib offline swept_store (utter ''c1'' ''at 7'') = (swept_store, Inl Invalid_call_id)"
proof -
  from order_ended_created have "map_option ended (order_store ''c1'') = Some True"
    by auto
  then show ?thesis
    by (simp add: order_run swept_store_def [symmetric] swept_webhook)
qed

text \<open>
  Claim C8. The claim: an utterance ``trade BASE with QUOTE'' gives the pair BASE/QUOTE.
  The source upper-cases the transcript before it matches, so its patterns with the
  lower-case words \<^verbatim>\<open>trade\<close>, \<^verbatim>\<open>with\<close> and \<^verbatim>\<open>against\<close> cannot match, and the first pattern,
  two tokens around a separator, takes the words TRADE and BTC: the extractor returns
  TRADE/BTC.
\<close>

theorem trade_with_gives_wrong_pair:
  "extract_trading_pair ''trade BTC with USDT'' = Some ''TRADE/BTC''"
  by code_simp

text \<open>
  Claim C1. On every turn that is answered with a response (the session exists and has
  not ended): when the transcript holds no correction keyword, a slot that was set keeps
  its value and a slot that was unset takes the candidate extracted for it, if there is
  one; when the transcript holds a correction keyword, every slot takes its candidate
  when one was extracted, whether the slot was set or not, and keeps its value
  otherwise. The candidates are the results of the extractors on the stripped
  transcript, the numbers of the turn among them; the price candidate is computed with
  the quantity the session had before the turn.
\<close>

theorem slot_resolution:
  assumes "webhook lib w S data = (S', Inr resp)" and "req_call_id data = Some cid"
  shows "\<exists>st st' nums. S cid = Some st \<and> \<not> ended st \<and> S' cid = Some st' \<and>
    numbers lib (transcript_of data) = Inr nums \<and>
    (let t = transcript_of data;
         exch = extract_exchange t;
         symbol = extract_trading_pair t;
         qty = qty_candidate nums (lower t);
         prc = price_candidate lib nums (lower t) (quantity st)
     in (\<not> is_correction (lower t) \<longrightarrow>
           (exchange st \<noteq> None \<longrightarrow> exchange st' = exchange st) \<and>
           (trading_pair st \<noteq> None \<longrightarrow> trading_pair st' = trading_pair st) \<and>
           (quantity st \<noteq> None \<longrightarrow> quantity st' = quantity st) \<and>
           (price st \<noteq> None \<longrightarrow> price st' = price st) \<and>
           (exchange st = None \<longrightarrow> exchange st' = (if str_truthy exch then exch else None)) \<and>
           (trading_pair st = None \<longrightarrow> trading_pair st' = (if str_truthy symbol then symbol else None)) \<and>
           (quantity st = None \<longrightarrow> quantity st' = qty) \<and>
           (price st = None \<longrightarrow> price st' = prc)) \<and>
        (is_correction (lower t) \<longrightarrow>
           exchange st' = (if str_truthy exch then exch else exchange st) \<and>
           trading_pair st' = (if str_truthy symbol then symbol else trading_pair st) \<and>
           quantity st' = (if qty \<noteq> None then qty else quantity st) \<and>
           price st' = (if prc \<noteq> None then prc else price st)))"
proof -
  from webhook_accepted [OF assms] obtain st nums where
    l: "S cid = Some st" "\<not> ended st" "numbers lib (transcript_of data) = Inr nums"
       "S' = S(cid \<mapsto> fst (respond lib w (heard w st (transcript_of data) (req_timestamp data))
                           (transcript_of data) nums))"
    by blast
  define st' where
    "st' = fst (respond lib w (heard w st (transcript_of data) (req_timestamp data))
                  (transcript_of data) nums)"
  have s: "S' cid = Some st'" using l(4) by (simp add: st'_def)
  have e: "exchange st' =
     (if (is_correction (lower (transcript_of data)) \<or> exchange st = None) \<and>
         str_truthy (extract_exchange (transcript_of data))
      then extract_exchange (transcript_of data) else exchange st)"
    by (simp add: st'_def respond_slots collect_slots)
  have p: "trading_pair st' =
     (if (is_correction (lower (transcript_of data)) \<or> trading_pair st = None) \<and>
         str_truthy (extract_trading_pair (transcript_of data))
      then extract_trading_pair (transcript_of data) else trading_pair st)"
    by (simp add: st'_def respond_slots collect_slots)
  have q: "quantity st' =
     (if (is_correction (lower (transcript_of data)) \<or> quantity st = None) \<and>
         qty_candidate nums (lower (transcript_of data)) \<noteq> None
      then qty_candidate nums (lower (transcript_of data))
      else quantity st)"
    by (simp add: st'_def respond_slots collect_slots)
  have r: "price st' =
     (if (is_correction (lower (transcript_of data)) \<or> price st = None) \<and>
         price_candidate lib nums (lower (transcript_of data)) (quantity st) \<noteq> None
      then price_candidate lib nums (lower (transcript_of data)) (quantity st)
      else price st)"
    by (simp add: st'_def respond_slots collect_slots)
  have "let t = transcript_of data;
         exch = extract_exchange t;
         symbol = extract_trading_pair t;
         qty = qty_candidate nums (lower t);
         prc = price_candidate lib nums (lower t) (quantity st)
     in (\<not> is_correction (lower t) \<longrightarrow>
           (exchange st \<noteq> None \<longrightarrow> exchange st' = exchange st) \<and>
           (trading_pair st \<noteq> None \<longrightarrow> trading_pair st' = trading_pair st) \<and>
           (quantity st \<noteq> None \<longrightarrow> quantity st' = quantity st) \<and>
           (price st \<noteq> None \<longrightarrow> price st' = price st) \<and>
           (exchange st = None \<longrightarrow> exchange st' = (if str_truthy exch then exch else None)) \<and>
           (trading_pair st = None \<longrightarrow> trading_pair st' = (if str_truthy symbol then symbol else None)) \<and>
           (quantity st = None \<longrightarrow> quantity st' = qty) \<and>
           (price st = None \<longrightarrow> price st' = prc)) \<and>
        (is_correction (lower t) \<longrightarrow>
           exchange st' = (if str_truthy exch then exch else exchange st) \<and>
           trading_pair st' = (if str_truthy symbol then symbol else trading_pair st) \<and>
           quantity st' = (if qty \<noteq> None then qty else quantity st) \<and>
           price st' = (if prc \<noteq> None then prc else price st))"
    unfolding Let_def e p q r by auto
  with l(1,2,3) s show ?thesis by blast
qed

theorem slot_resolution_witness:
  "(\<exists>st st'. quantity_store ''c1'' = Some st \<and> \<not> ended st \<and>
      fst (webhook demo_lib offline quantity_store (utter ''c1'' ''actually 7'')) ''c1'' = Some st' \<and>
      is_correction (lower (transcript_of (utter ''c1'' ''actually 7''))) \<and>
      numbers demo_lib (transcript_of (utter ''c1'' ''actually 7'')) = Inr [Some 7] \<and>
      exchange st' = exchange st \<and> trading_pair st' = trading_pair st \<and>
      quantity st = Some 3 \<and> quantity st' = Some 7 \<and> price st = None \<and> price st' = Some 7) \<and>
   (\<exists>st st'. quantity_store ''c1'' = Some st \<and> \<not> ended st \<and>
      fst (webhook demo_lib offline quantity_store (utter ''c1'' ''at 5'')) ''c1'' = Some st' \<and>
      \<not> is_correction (lower (transcript_of (utter ''c1'' ''at 5''))) \<and>
      numbers demo_lib (transcript_of (utter ''c1'' ''at 5'')) = Inr [Some 5] \<and>
      exchange st' = exchange st \<and> trading_pair st' = trading_pair st \<and>
      quantity st' = quantity st \<and> price st = None \<and> price st' = Some 5)"
proof -
  from turn_actually_7 obtain resp where
    r: "snd (turn demo_lib offline awaiting_price (transcript_of (utter ''c1'' ''actually 7'')) None) = Inr resp"
    by (cases "snd (turn demo_lib offline awaiting_price (transcript_of (utter ''c1'' ''actually 7'')) None)")
      auto
  then have w: "webhook demo_lib offline quantity_store (utter ''c1'' ''actually 7'') =
      (fst (webhook demo_lib offline quantity_store (utter ''c1'' ''actually 7'')), Inr resp)"
    by (simp add: quantity_store_webhook)
  have c: "(let t = transcript_of (utter ''c1'' ''actually 7'') in
       is_correction (lower t) \<and> \<not> str_truthy (extract_exchange t) \<and>
       \<not> str_truthy (extract_trading_pair t) \<and>
       qty_candidate [Some (7::rat)] (lower t) = Some 7 \<and>
       price_candidate demo_lib [Some 7] (lower t) (Some 3) = Some 7)"
    by code_simp
  from slot_resolution [OF w, of "''c1''"] obtain st st' nums where
    s: "quantity_store ''c1'' = Some st" "\<not> ended st"
       "fst (webhook demo_lib offline quantity_store (utter ''c1'' ''actually 7'')) ''c1'' = Some st'"
    and nm: "numbers demo_lib (transcript_of (utter ''c1'' ''actually 7'')) = Inr nums"
    and x: "let t = transcript_of (utter ''c1'' ''actually 7'');
         exch = extract_exchange t;
         symbol = extract_trading_pair t;
         qty = qty_candidate nums (lower t);
         prc = price_candidate demo_lib nums (lower t) (quantity st)
     in (\<not> is_correction (lower t) \<longrightarrow>
           (exchange st \<noteq> None \<longrightarrow> exchange st' = exchange st) \<and>
           (trading_pair st \<noteq> None \<longrightarrow> trading_pair st' = trading_pair st) \<and>
           (quantity st \<noteq> None \<longrightarrow> quantity st' = quantity st) \<and>
           (price st \<noteq> None \<longrightarrow> price st' = price st) \<and>
           (exchange st = None \<longrightarrow> exchange st' = (if str_truthy exch then exch else None)) \<and>
           (trading_pair st = None \<longrightarrow> trading_pair st' = (if str_truthy symbol then symbol else None)) \<and>
           (quantity st = None \<longrightarrow> quantity st' = qty) \<and>
           (price st = None \<longrightarrow> price st' = prc)) \<and>
        (is_correction (lower t) \<longrightarrow>
           exchange st' = (if str_truthy exch then exch else exchange st) \<and>
           trading_pair st' = (if str_truthy symbol then symbol else trading_pair st) \<and>
           quantity st' = (if qty \<noteq> None then qty else quantity st) \<and>
           price st' = (if prc \<noteq> None then prc else price st))"
    by auto
  from nm have nums: "nums = [Some 7]" by (simp add: numbers_actually_7)
  from s(1) have st: "st = awaiting_price" by (simp add: quantity_session)
  have q: "quantity st = Some 3" "price st = None" by (simp_all add: st awaiting_price_def)
  from x c q have "is_correction (lower (transcript_of (utter ''c1'' ''actually 7''))) \<and>
      exchange st' = exchange st \<and> trading_pair st' = trading_pair st \<and>
      quantity st' = Some 7 \<and> price st' = Some 7"
    by (simp add: Let_def nums)
  with s q have first: "\<exists>st st'. quantity_store ''c1'' = Some st \<and> \<not> ended st \<and>
      fst (webhook demo_lib offline quantity_store (utter ''c1'' ''actually 7'')) ''c1'' = Some st' \<and>
      is_correction (lower (transcript_of (utter ''c1'' ''actually 7''))) \<and>
      numbers demo_lib (transcript_of (utter ''c1'' ''actually 7'')) = Inr [Some 7] \<and>
      exchange st' = exchange st \<and> trading_pair st' = trading_pair st \<and>
      quantity st = Some 3 \<and> quantity st' = Some 7 \<and> price st = None \<and> price st' = Some 7"
    using numbers_actually_7 by blast
  from order_webhook obtain resp2 where
    w2: "webhook demo_lib offline quantity_store (utter ''c1'' ''at 5'') = (order_store, Inr resp2)"
    by blast
  have c2: "(let t = transcript_of (utter ''c1'' ''at 5'') in
       \<not> is_correction (lower t) \<and>
       price_candidate demo_lib [Some 5] (lower t) (Some 3) = Some 5)"
    by code_simp
  from slot_resolution [OF w2, of "''c1''"] obtain st2 st2' nums2 where
    s2: "quantity_store ''c1'' = Some st2" "\<not> ended st2" "order_store ''c1'' = Some st2'"
    and nm2: "numbers demo_lib (transcript_of (utter ''c1'' ''at 5'')) = Inr nums2"
    and x2: "let t = transcript_of (utter ''c1'' ''at 5'');
         exch = extract_exchange t;
         symbol = extract_trading_pair t;
         qty = qty_candidate nums2 (lower t);
         prc = price_candidate demo_lib nums2 (lower t) (quantity st2)
     in (\<not> is_correction (lower t) \<longrightarrow>
           (exchange st2 \<noteq> None \<longrightarrow> exchange st2' = exchange st2) \<and>
           (trading_pair st2 \<noteq> None \<longrightarrow> trading_pair st2' = trading_pair st2) \<and>
           (quantity st2 \<noteq> None \<longrightarrow> quantity st2' = quantity st2) \<and>
           (price st2 \<noteq> None \<longrightarrow> price st2' = price st2) \<and>
           (exchange st2 = None \<longrightarrow> exchange st2' = (if str_truthy exch then exch else None)) \<and>
           (trading_pair st2 = None \<longrightarrow> trading_pair st2' = (if str_truthy symbol then symbol else None)) \<and>
           (quantity st2 = None \<longrightarrow> quantity st2' = qty) \<and>
           (price st2 = None \<longrightarrow> price st2' = prc)) \<and>
        (is_correction (lower t) \<longrightarrow>
           exchange st2' = (if str_truthy exch then exch else exchange st2) \<and>
           trading_pair st2' = (if str_truthy symbol then symbol else trading_pair st2) \<and>
           quantity st2' = (if qty \<noteq> None then qty else quantity st2) \<and>
           price st2' = (if prc \<noteq> None then prc else price st2))"
    by auto
  from nm2 have nums2: "nums2 = [Some 5]" by (simp add: numbers_at_5)
  from s2(1) have st2: "st2 = awaiting_price" by (simp add: quantity_session)
  have q2: "exchange st2 \<noteq> None" "trading_pair st2 \<noteq> None" "quantity st2 = Some 3"
    "price st2 = None"
    by (simp_all add: st2 awaiting_price_def)
  from x2 c2 q2 have "\<not> is_correction (lower (transcript_of (utter ''c1'' ''at 5''))) \<and>
      exchange st2' = exchange st2 \<and> trading_pair st2' = trading_pair st2 \<and>
      quantity st2' = quantity st2 \<and> price st2' = Some 5"
    by (simp add: Let_def nums2)
  with s2 q2(4) w2 numbers_at_5 have "\<exists>st st'. quantity_store ''c1'' = Some st \<and> \<not> ended st \<and>
      fst (webhook demo_lib offline quantity_store (utter ''c1'' ''at 5'')) ''c1'' = Some st' \<and>
      \<not> is_correction (lower (transcript_of (utter ''c1'' ''at 5''))) \<and>
      numbers demo_lib (transcript_of (utter ''c1'' ''at 5'')) = Inr [Some 5] \<and>
      exchange st' = exchange st \<and> trading_pair st' = trading_pair st \<and>
      quantity st' = quantity st \<and> price st = None \<and> price st' = Some 5"
    by auto
  with first show ?thesis by blast
qed

text \<open>
  Claim C10. On a turn that is answered with a response, if the transcript holds a
  correction keyword and at least one decimal literal, does not hold the substring
  \<^verbatim>\<open>at\<close>, and the quantity of the session is set to a number that is not zero, then after
  the turn the quantity and the price of the session are both the first decimal literal
  of the transcript.
\<close>

theorem correction_number_sets_both:
  assumes "webhook lib w S data = (S', Inr resp)" and "req_call_id data = Some cid"
    and "S cid = Some st"
    and "is_correction (lower (transcript_of data))"
    and "findall number_rx (lower (transcript_of data)) = n # ns"
    and "\<not> substr_in ''at'' (lower (transcript_of data))"
    and "quantity st = Some q" and "\<not> is_zero lib q"
  shows "\<exists>st'. S' cid = Some st' \<and> quantity st' = Some (float_of lib n) \<and>
               price st' = Some (float_of lib n)"
proof -
  define nums where "nums = Some (float_of lib n) # map (\<lambda>n. Some (float_of lib n)) ns"
  have nums: "numbers lib (transcript_of data) = Inr nums"
    by (simp add: numbers_def Let_def assms(5) nums_def)
  from webhook_accepted [OF assms(1,2)] assms(3) nums have
    s: "S' = S(cid \<mapsto> fst (respond lib w (heard w st (transcript_of data) (req_timestamp data))
                           (transcript_of data) nums))"
    by auto
  have qc: "qty_candidate nums (lower (transcript_of data)) = Some (float_of lib n)"
    by (simp add: nums_def qty_candidate_def assms(6))
  have pc: "price_candidate lib nums (lower (transcript_of data)) (quantity st) =
              Some (float_of lib n)"
    by (simp add: nums_def price_candidate_def assms(6,7,8) truthy_def)
  have "quantity (fst (respond lib w (heard w st (transcript_of data) (req_timestamp data))
                         (transcript_of data) nums)) = Some (float_of lib n)"
    by (simp add: respond_slots collect_slots assms(4) qc)
  moreover
  have "price (fst (respond lib w (heard w st (transcript_of data) (req_timestamp data))
                      (transcript_of data) nums)) = Some (float_of lib n)"
    by (simp add: respond_slots collect_slots assms(4) pc)
  ultimately show ?thesis by (simp add: s)
qed

theorem correction_number_sets_both_witness:
  "quantity_store ''c1'' = Some awaiting_price \<and> quantity awaiting_price = Some 3 \<and>
   \<not> is_zero demo_lib 3 \<and>
   is_correction (lower (transcript_of (utter ''c1'' ''actually 7''))) \<and>
   findall number_rx (lower (transcript_of (utter ''c1'' ''actually 7''))) = [''7''] \<and>
   \<not> substr_in ''at'' (lower (transcript_of (utter ''c1'' ''actually 7''))) \<and>
   (\<exists>st'. fst (webhook demo_lib offline quantity_store (utter ''c1'' ''actually 7'')) ''c1'' = Some st' \<and>
          quantity st' = Some (float_of demo_lib ''7'') \<and> price st' = Some (float_of demo_lib ''7''))"
proof -
  from turn_actually_7 obtain resp where
    "snd (turn demo_lib offline awaiting_price (transcript_of (utter ''c1'' ''actually 7'')) None) = Inr resp"
    by (cases "snd (turn demo_lib offline awaiting_price (transcript_of (utter ''c1'' ''actually 7'')) None)")
      auto
  then have w: "webhook demo_lib offline quantity_store (utter ''c1'' ''actually 7'') =
      (fst (webhook demo_lib offline quantity_store (utter ''c1'' ''actually 7'')), Inr resp)"
    by (simp add: quantity_store_webhook)
  have q: "quantity awaiting_price = Some 3" by (simp add: awaiting_price_def)
  have z: "\<not> is_zero demo_lib 3" by (simp add: demo_lib_def)
  from actually_7_reading have
    c: "is_correction (lower (transcript_of (utter ''c1'' ''actually 7'')))" and
    f: "findall number_rx (lower (transcript_of (utter ''c1'' ''actually 7''))) = [''7'']" and
    a: "\<not> substr_in ''at'' (lower (transcript_of (utter ''c1'' ''actually 7'')))"
    by simp_all
  from correction_number_sets_both [OF w _ quantity_session c f a q z]
  show ?thesis using quantity_session q z c f a by simp
qed

text \<open>
  Claim C4, as amended. Across every request (\<^verbatim>\<open>start_call\<close>, \<^verbatim>\<open>webhook\<close>, \<^verbatim>\<open>poll_messages\<close>,
  \<^verbatim>\<open>end_call\<close>) a session is still in the store afterwards and the history it had is a
  prefix of the history it has, so that no entry is removed or reordered and the length
  does not decrease; the one exception is the sweep: a poll more than 300 seconds after
  the creation of a session that has ended deletes the session, its history with it.
  Every \<^verbatim>\<open>webhook\<close> request that is answered with a response appends exactly the user's
  message and then the bot's message with that response. On the stores a run reaches,
  every request for a session that has not ended, on a transcript whose numbers are
  extracted without an exception, is answered with a response.
\<close>

theorem history_append_only:
  "(step lib S e = Some S' \<and> S cid = Some st \<longrightarrow>
      (if ended st \<and> sweeps lib st e then S' cid = None
       else \<exists>st'. S' cid = Some st' \<and> prefix (messages st) (messages st'))) \<and>
   (webhook lib w S data = (S'', Inr resp) \<and> req_call_id data = Some cid \<longrightarrow>
      (\<exists>st0 st1. S cid = Some st0 \<and> S'' cid = Some st1 \<and>
         messages st1 =
           messages st0 @ [user_message w (transcript_of data) (req_timestamp data),
                           bot_message w resp])) \<and>
   (run lib Map.empty es = Some S \<and> req_call_id data = Some cid \<and> S cid = Some st \<and>
    \<not> ended st \<and> numbers lib (transcript_of data) = Inr nums \<longrightarrow>
      (\<exists>r. snd (webhook lib w S data) = Inr r))"
proof (intro conjI impI)
  assume "step lib S e = Some S' \<and> S cid = Some st"
  then show "if ended st \<and> sweeps lib st e then S' cid = None
       else \<exists>st'. S' cid = Some st' \<and> prefix (messages st) (messages st')"
    using step_keeps_or_sweeps by blast
next
  assume a: "webhook lib w S data = (S'', Inr resp) \<and> req_call_id data = Some cid"
  then have "webhook lib w S data = (S'', Inr resp)" "req_call_id data = Some cid"
    by simp_all
  from webhook_accepted [OF this] obtain st0 nums0 where
    s: "S cid = Some st0"
       "S'' = S(cid \<mapsto> fst (respond lib w (heard w st0 (transcript_of data) (req_timestamp data))
                            (transcript_of data) nums0))"
       "snd (respond lib w (heard w st0 (transcript_of data) (req_timestamp data))
               (transcript_of data) nums0) = Inr resp"
    by blast
  have "messages (fst (respond lib w (heard w st0 (transcript_of data) (req_timestamp data))
                         (transcript_of data) nums0)) =
          messages st0 @ [user_message w (transcript_of data) (req_timestamp data),
                          bot_message w resp]"
    by (simp add: respond_messages s(3))
  with s(1,2) show "\<exists>st0 st1. S cid = Some st0 \<and> S'' cid = Some st1 \<and>
         messages st1 =
           messages st0 @ [user_message w (transcript_of data) (req_timestamp data),
                           bot_message w resp]"
    by simp
next
  assume "run lib Map.empty es = Some S \<and> req_call_id data = Some cid \<and> S cid = Some st \<and>
    \<not> ended st \<and> numbers lib (transcript_of data) = Inr nums"
  then show "\<exists>r. snd (webhook lib w S data) = Inr r"
    using live_turn_answers by blast
qed

theorem history_append_only_witness:
  "(\<exists>st'. order_store ''c1'' = Some st' \<and> prefix (messages awaiting_price) (messages st')) \<and>
   (\<exists>resp st0 st1. quantity_store ''c1'' = Some st0 \<and> order_store ''c1'' = Some st1 \<and>
      messages st1 =
        messages st0 @ [user_message offline (transcript_of (utter ''c1'' ''at 5'')) None,
                        bot_message offline resp]) \<and>
   (\<exists>r. snd (webhook demo_lib offline quantity_store (utter ''c1'' ''at 5'')) = Inr r) \<and>
   (\<exists>st. order_store ''c1'' = Some st \<and> ended st \<and>
      sweeps demo_lib st (Poll_messages ''c1'' 301) \<and>
      step demo_lib order_store (Poll_messages ''c1'' 301) = Some swept_store \<and>
      swept_store ''c1'' = None)"
proof -
  from order_webhook obtain resp where
    w: "webhook demo_lib offline quantity_store (utter ''c1'' ''at 5'') = (order_store, Inr resp)"
    by blast
  have s: "step demo_lib quantity_store (say ''c1'' ''at 5'') = Some order_store"
    by (simp add: say_def order_store_def)
  have k: "\<not> sweeps demo_lib awaiting_price (say ''c1'' ''at 5'')"
    by (simp add: sweeps_def say_def)
  note h = history_append_only [where lib = demo_lib and S = quantity_store
      and e = "say ''c1'' ''at 5''" and S' = order_store and cid = "''c1''"
      and st = awaiting_price
      and w = offline and data = "utter ''c1'' ''at 5''" and S'' = order_store and resp = resp
      and es = quantity_events and nums = "[Some 5]"]
  from h s w k have first:
    "(\<exists>st'. order_store ''c1'' = Some st' \<and> prefix (messages awaiting_price) (messages st')) \<and>
     (\<exists>resp st0 st1. quantity_store ''c1'' = Some st0 \<and> order_store ''c1'' = Some st1 \<and>
        messages st1 =
          messages st0 @ [user_message offline (transcript_of (utter ''c1'' ''at 5'')) None,
                          bot_message offline resp]) \<and>
     (\<exists>r. snd (webhook demo_lib offline quantity_store (utter ''c1'' ''at 5'')) = Inr r)"
    by (simp add: quantity_session quantity_run awaiting_price_live numbers_at_5) blast
  from order_ended_created obtain st where
    o: "order_store ''c1'' = Some st" "ended st" "created st = 0"
    by blast
  have k': "sweeps demo_lib st (Poll_messages ''c1'' 301)"
    by (simp add: sweeps_def o(3) demo_lib_def)
  have s': "step demo_lib order_store (Poll_messages ''c1'' 301) = Some swept_store"
    by (simp add: swept_store_def)
  note h' = history_append_only [where lib = demo_lib and S = order_store
      and e = "Poll_messages ''c1'' 301" and S' = swept_store and cid = "''c1''" and st = st]
  from h' s' o(1,2) k' have "swept_store ''c1'' = None" by simp
  with o(1,2) k' s' have
    "\<exists>st. order_store ''c1'' = Some st \<and> ended st \<and>
      sweeps demo_lib st (Poll_messages ''c1'' 301) \<and>
      step demo_lib order_store (Poll_messages ''c1'' 301) = Some swept_store \<and>
      swept_store ''c1'' = None"
    by blast
  with first show ?thesis by blast
qed

text \<open>
  Claim C4 as it was stated says that no operation removes an entry of the history of a
  session and that the length of the history never decreases. The session of the order
  has ended with a history of nine entries; the poll 301 seconds after its start
  sweeps it out of the store, and that very poll is answered with the error ``Call ID
  not found'': the history is gone.
\<close>

theorem sweep_deletes_history:
  "map_option (length \<circ> messages) (order_store ''c1'') = Some 9 \<and>
   step demo_lib order_store (Poll_messages ''c1'' 301) = Some swept_store \<and>
   map_option (length \<circ> messages) (swept_store ''c1'') = None \<and>
   snd (poll_messages demo_lib 301 order_store ''c1'') = Inl Session_not_found"
proof -
  from order_history obtain resp where
    "map_option messages (order_store ''c1'') =
       Some (messages awaiting_price @
               [user_message offline (transcript_of (utter ''c1'' ''at 5'')) None,
                bot_message offline resp])"
    by blast
  then have a: "map_option (length \<circ> messages) (order_store ''c1'') = Some 9"
    by (auto simp add: awaiting_price_def)
  from a swept_poll show ?thesis
    by (simp add: swept_session swept_store_def [symmetric])
qed

text \<open>
  Claim C7. When the lookup fails on each of its three attempts, \<^verbatim>\<open>get_current_price\<close>
  returns no price and the error text ``failed to fetch price'', having slept 1 and
  then 2 units between the attempts; the turn that completes the four slots still
  confirms the order: its response is the check mark, ``Order confirmed: Trading'', the
  quantity, the pair, the exchange and the price, then the warning sign and ``Couldn't
  fetch price: failed to fetch price.'' in place of the market price, then ``Goodbye!'';
  the session keeps the four slots, has the ended flag set and the retry counter at 0,
  and its history ends with the user's message and the bot's message with that
  response.
\<close>

theorem lookup_failure_still_confirms:
  assumes "req_call_id data = Some cid" "cid \<noteq> []" "S cid = Some st" "\<not> ended st"
    and "numbers lib (transcript_of data) = Inr nums"
    and "st2 = fst (collect lib (heard w st (transcript_of data) (req_timestamp data))
                      (transcript_of data) nums)"
    and "exchange st2 = Some ex" "trading_pair st2 = Some pair" "quantity st2 = Some q"
      "price st2 = Some p"
    and "\<forall>i<3. fetch_ticker w ex (normalize_symbol ex pair) i = None"
    and "resp = [CHR 0xE2, CHR 0x9C, CHR 0x85] @ '' Order confirmed: Trading '' @ str_of lib q @
                '' '' @ pair @ '' on '' @ exchange_display ex @ '' at $'' @ fmt_2f lib p @ ''. '' @
                [CHR 0xE2, CHR 0x9A, CHR 0xA0, CHR 0xEF, CHR 0xB8, CHR 0x8F] @
                '' Couldn't fetch price: failed to fetch price. Goodbye!''"
  shows "get_current_price w ex pair 3 1 = (Some (None, Some ''failed to fetch price''), [1, 2]) \<and>
         webhook lib w S data =
           (S(cid \<mapsto> st2\<lparr>ended := True, retry_count := 0,
                          messages := messages st @
                            [\<lparr>sender = User, msg_text = transcript_of data,
                              timestamp = (case req_timestamp data of Some t \<Rightarrow> t | None \<Rightarrow> now_iso w)\<rparr>,
                             \<lparr>sender = Bot, msg_text = resp, timestamp = now_iso_bot w\<rparr>]\<rparr>),
            Inr resp)"
proof -
  have g: "get_current_price w ex pair 3 1 = (Some (None, Some ''failed to fetch price''), [1, 2])"
    using assms(11) by (rule get_current_price_fails)
  have a: "all_slots_set (fst (collect lib (heard w st (transcript_of data) (req_timestamp data))
             (transcript_of data) nums))"
    using assms(6-10) by (simp add: all_slots_set_def)
  from respond_final [OF a] obtain ex' pair' q' p' cp err where
    f: "exchange st2 = Some ex'" "trading_pair st2 = Some pair'" "quantity st2 = Some q'"
       "price st2 = Some p'" "fst (get_current_price w ex' pair' 3 1) = Some (cp, err)"
       "respond lib w (heard w st (transcript_of data) (req_timestamp data)) (transcript_of data) nums =
          (st2\<lparr>ended := True, retry_count := 0,
               messages := messages st @
                 [user_message w (transcript_of data) (req_timestamp data),
                  bot_message w (confirmation lib ex' pair' q' p' (price_msg lib cp err))]\<rparr>,
           Inr (confirmation lib ex' pair' q' p' (price_msg lib cp err)))"
    unfolding assms(6) by blast
  from f(1-4) assms(7-10) have e: "ex' = ex" "pair' = pair" "q' = q" "p' = p" by simp_all
  from f(5) g e have c: "cp = None" "err = Some ''failed to fetch price''" by simp_all
  have m: "confirmation lib ex pair q p (price_msg lib cp err) = resp"
    by (simp add: c price_msg_def fmt_str_def confirmation_def check_mark_def warning_sign_def
        assms(12))
  have wl: "webhook lib w S data =
              (S(cid \<mapsto> fst (turn lib w st (transcript_of data) (req_timestamp data))),
               snd (turn lib w st (transcript_of data) (req_timestamp data)))"
    using assms(1-4) by (rule webhook_live)
  have "webhook lib w S data =
          (S(cid \<mapsto> st2\<lparr>ended := True, retry_count := 0,
                         messages := messages st @
                           [user_message w (transcript_of data) (req_timestamp data),
                            bot_message w resp]\<rparr>),
           Inr resp)"
    unfolding wl turn_answered [OF assms(5)] f(6) e m by simp
  then have "webhook lib w S data =
           (S(cid \<mapsto> st2\<lparr>ended := True, retry_count := 0,
                          messages := messages st @
                            [\<lparr>sender = User, msg_text = transcript_of data,
                              timestamp = (case req_timestamp data of Some t \<Rightarrow> t | None \<Rightarrow> now_iso w)\<rparr>,
                             \<lparr>sender = Bot, msg_text = resp, timestamp = now_iso_bot w\<rparr>]\<rparr>),
            Inr resp)"
    by (simp add: user_message_def bot_message_def)
  with g show ?thesis by (rule conjI)
qed

theorem lookup_failure_still_confirms_witness:
  "get_current_price offline ''okx'' ''BTC/USDT'' 3 1 =
     (Some (None, Some ''failed to fetch price''), [1, 2]) \<and>
   (\<exists>st'. webhook demo_lib offline quantity_store (utter ''c1'' ''at 5'') =
            (quantity_store(''c1'' \<mapsto> st'),
             Inr ([CHR 0xE2, CHR 0x9C, CHR 0x85] @
                  '' Order confirmed: Trading <number> BTC/USDT on OKX at $<number>. '' @
                  [CHR 0xE2, CHR 0x9A, CHR 0xA0, CHR 0xEF, CHR 0xB8, CHR 0x8F] @
                  '' Couldn't fetch price: failed to fetch price. Goodbye!'')) \<and>
          ended st' \<and> retry_count st' = 0 \<and>
          exchange st' = Some ''okx'' \<and> trading_pair st' = Some ''BTC/USDT'' \<and>
          quantity st' = Some 3 \<and> price st' = Some 5 \<and>
          messages st' =
            messages awaiting_price @
              [\<lparr>sender = User, msg_text = ''at 5'', timestamp = ''t1''\<rparr>,
               \<lparr>sender = Bot,
                msg_text = [CHR 0xE2, CHR 0x9C, CHR 0x85] @
                  '' Order confirmed: Trading <number> BTC/USDT on OKX at $<number>. '' @
                  [CHR 0xE2, CHR 0x9A, CHR 0xA0, CHR 0xEF, CHR 0xB8, CHR 0x8F] @
                  '' Couldn't fetch price: failed to fetch price. Goodbye!'',
                timestamp = ''t2''\<rparr>])"
proof -
  define st2 where
    "st2 = fst (collect demo_lib
          (heard offline awaiting_price (transcript_of (utter ''c1'' ''at 5'')) None)
          (transcript_of (utter ''c1'' ''at 5'')) [Some 5])"
  have f: "\<forall>i<3. fetch_ticker offline ''okx'' (normalize_symbol ''okx'' ''BTC/USDT'') i = None"
    by (simp add: offline_def)
  from collect_at_5 have
    c: "exchange st2 = Some ''okx''" "trading_pair st2 = Some ''BTC/USDT''"
       "quantity st2 = Some 3" "price st2 = Some 5"
    by (simp_all add: st2_def)
  have d: "req_call_id (utter ''c1'' ''at 5'') = Some ''c1''" "''c1'' \<noteq> []"
    by simp_all
  have e: "st2 = fst (collect demo_lib
          (heard offline awaiting_price (transcript_of (utter ''c1'' ''at 5''))
             (req_timestamp (utter ''c1'' ''at 5'')))
          (transcript_of (utter ''c1'' ''at 5'')) [Some 5])"
    by (simp add: st2_def)
  define r where
    "r = [CHR 0xE2, CHR 0x9C, CHR 0x85] @ '' Order confirmed: Trading '' @ str_of demo_lib 3 @
         '' '' @ ''BTC/USDT'' @ '' on '' @ exchange_display ''okx'' @ '' at $'' @ fmt_2f demo_lib 5 @
         ''. '' @ [CHR 0xE2, CHR 0x9A, CHR 0xA0, CHR 0xEF, CHR 0xB8, CHR 0x8F] @
         '' Couldn't fetch price: failed to fetch price. Goodbye!''"
  have r: "r = [CHR 0xE2, CHR 0x9C, CHR 0x85] @
                  '' Order confirmed: Trading <number> BTC/USDT on OKX at $<number>. '' @
                  [CHR 0xE2, CHR 0x9A, CHR 0xA0, CHR 0xEF, CHR 0xB8, CHR 0x8F] @
                  '' Couldn't fetch price: failed to fetch price. Goodbye!''"
    by (simp add: r_def okx_display demo_lib_def)
  note t = lookup_failure_still_confirms [where data = "utter ''c1'' ''at 5''" and cid = "''c1''"
      and S = quantity_store and st = awaiting_price and lib = demo_lib and nums = "[Some 5]"
      and ?st2.0 = st2 and w = offline and ex = "''okx''" and pair = "''BTC/USDT''" and q = 3
      and p = 5 and resp = r, OF d quantity_session awaiting_price_live numbers_at_5 e c f r_def]
  from t have g: "get_current_price offline ''okx'' ''BTC/USDT'' 3 1 =
     (Some (None, Some ''failed to fetch price''), [1, 2])"
    by (rule conjunct1)
  from t have "webhook demo_lib offline quantity_store (utter ''c1'' ''at 5'') =
      (quantity_store(''c1'' \<mapsto> st2\<lparr>ended := True, retry_count := 0,
          messages := messages awaiting_price @
              [\<lparr>sender = User, msg_text = ''at 5'', timestamp = ''t1''\<rparr>,
               \<lparr>sender = Bot,
                msg_text = [CHR 0xE2, CHR 0x9C, CHR 0x85] @
                  '' Order confirmed: Trading <number> BTC/USDT on OKX at $<number>. '' @
                  [CHR 0xE2, CHR 0x9A, CHR 0xA0, CHR 0xEF, CHR 0xB8, CHR 0x8F] @
                  '' Couldn't fetch price: failed to fetch price. Goodbye!'',
                timestamp = ''t2''\<rparr>]\<rparr>),
       Inr ([CHR 0xE2, CHR 0x9C, CHR 0x85] @
                  '' Order confirmed: Trading <number> BTC/USDT on OKX at $<number>. '' @
                  [CHR 0xE2, CHR 0x9A, CHR 0xA0, CHR 0xEF, CHR 0xB8, CHR 0x8F] @
                  '' Couldn't fetch price: failed to fetch price. Goodbye!''))"
    by (simp add: r transcript_at_5 offline_def)
  then have "\<exists>st'. webhook demo_lib offline quantity_store (utter ''c1'' ''at 5'') =
            (quantity_store(''c1'' \<mapsto> st'),
             Inr ([CHR 0xE2, CHR 0x9C, CHR 0x85] @
                  '' Order confirmed: Trading <number> BTC/USDT on OKX at $<number>. '' @
                  [CHR 0xE2, CHR 0x9A, CHR 0xA0, CHR 0xEF, CHR 0xB8, CHR 0x8F] @
                  '' Couldn't fetch price: failed to fetch price. Goodbye!'')) \<and>
          ended st' \<and> retry_count st' = 0 \<and>
          exchange st' = Some ''okx'' \<and> trading_pair st' = Some ''BTC/USDT'' \<and>
          quantity st' = Some 3 \<and> price st' = Some 5 \<and>
          messages st' =
            messages awaiting_price @
              [\<lparr>sender = User, msg_text = ''at 5'', timestamp = ''t1''\<rparr>,
               \<lparr>sender = Bot,
                msg_text = [CHR 0xE2, CHR 0x9C, CHR 0x85] @
                  '' Order confirmed: Trading <number> BTC/USDT on OKX at $<number>. '' @
                  [CHR 0xE2, CHR 0x9A, CHR 0xA0, CHR 0xEF, CHR 0xB8, CHR 0x8F] @
                  '' Couldn't fetch price: failed to fetch price. Goodbye!'',
                timestamp = ''t2''\<rparr>]"
    using c by (intro exI [where x = "st2\<lparr>ended := True, retry_count := 0,
          messages := messages awaiting_price @
              [\<lparr>sender = User, msg_text = ''at 5'', timestamp = ''t1''\<rparr>,
               \<lparr>sender = Bot,
                msg_text = [CHR 0xE2, CHR 0x9C, CHR 0x85] @
                  '' Order confirmed: Trading <number> BTC/USDT on OKX at $<number>. '' @
                  [CHR 0xE2, CHR 0x9A, CHR 0xA0, CHR 0xEF, CHR 0xB8, CHR 0x8F] @
                  '' Couldn't fetch price: failed to fetch price. Goodbye!'',
                timestamp = ''t2''\<rparr>]\<rparr>"]) simp
  with g show ?thesis by (rule conjI)
qed

text \<open>
  Claim C9. On the stores a run reaches, no response is the text ``Sorry, I didn't catch
  that. Please try again.'': on a turn that leaves the session open, either a slot was
  updated and the acknowledgment is not empty, or the retry counter was incremented to
  at least 1 before the prompt was chosen, so the prompt index is positive; the
  response is the acknowledgment followed by the prompt of the escalation table for
  the current step at that index, stripped.
\<close>

theorem fallback_unreachable:
  assumes "run lib Map.empty es = Some S" "webhook lib w S data = (S', Inr resp)"
    and "req_call_id data = Some cid"
  shows "resp \<noteq> fallback_response \<and>
    (\<exists>st st' nums. S cid = Some st \<and> S' cid = Some st' \<and>
       numbers lib (transcript_of data) = Inr nums \<and>
       (\<not> ended st' \<longrightarrow>
          (let upd = snd (collect lib (heard w st (transcript_of data) (req_timestamp data))
                       (transcript_of data) nums);
               prompt_idx = min (retry_count st') 2
           in (upd = [] \<longrightarrow> retry_count st' = retry_count st + 1 \<and> 1 \<le> retry_count st') \<and>
              (ack upd \<noteq> [] \<or> 0 < prompt_idx) \<and>
              resp = strip (ack upd @ '' '' @ prompts st' (current_step st') ! nat prompt_idx))))"
proof -
  define t where "t = transcript_of data"
  define ts where "ts = req_timestamp data"
  from webhook_accepted [OF assms(2,3)] obtain st nums where
    l: "S cid = Some st" "\<not> ended st"
       "S' = S(cid \<mapsto> fst (respond lib w (heard w st t ts) t nums))"
       "snd (respond lib w (heard w st t ts) t nums) = Inr resp"
       "numbers lib t = Inr nums"
    unfolding t_def ts_def by blast
  from reachable_ok [OF assms(1)] l(1) have r: "0 \<le> retry_count st"
    by (auto simp add: store_ok_def)
  define st2 where "st2 = fst (collect lib (heard w st t ts) t nums)"
  define upd where "upd = snd (collect lib (heard w st t ts) t nums)"
  define st' where "st' = fst (respond lib w (heard w st t ts) t nums)"
  have s': "S' cid = Some st'" by (simp add: l(3) st'_def)
  have nm: "numbers lib (transcript_of data) = Inr nums" using l(5) by (simp add: t_def)
  show ?thesis
  proof (cases "missing_slots st2")
    case Nil
    then have "all_slots_set (fst (collect lib (heard w st t ts) t nums))"
      by (simp add: missing_slots_Nil st2_def)
    from respond_final [OF this] obtain ex pair q p cp err where
      f: "respond lib w (heard w st t ts) t nums =
            (st2\<lparr>ended := True, retry_count := 0,
                 messages := messages st @ [user_message w t ts,
                    bot_message w (confirmation lib ex pair q p (price_msg lib cp err))]\<rparr>,
             Inr (confirmation lib ex pair q p (price_msg lib cp err)))"
      unfolding st2_def by blast
    from f l(4) have "resp = confirmation lib ex pair q p (price_msg lib cp err)" by simp
    then have "resp \<noteq> fallback_response" by (simp add: confirmation_not_fallback)
    moreover from f have "ended st'" by (simp add: st'_def)
    ultimately show ?thesis using l(1) s' nm by auto
  next
    case (Cons n rest)
    define k where "k = (if upd = [] then retry_count st + 1 else retry_count st)"
    from Cons have "missing_slots (fst (collect lib (heard w st t ts) t nums)) = n # rest"
      by (simp add: st2_def)
    from respond_ask [OF this r] have
      a: "respond lib w (heard w st t ts) t nums =
            (st2\<lparr>current_step := n, retry_count := k,
                 messages := messages st @ [user_message w t ts,
                    bot_message w (strip (ack upd @ '' '' @ prompts st2 n ! nat (min k 2)))]\<rparr>,
             Inr (strip (ack upd @ '' '' @ prompts st2 n ! nat (min k 2))))"
      by (simp add: Let_def st2_def upd_def k_def)
    from a l(4) have resp: "resp = strip (ack upd @ '' '' @ prompts st2 n ! nat (min k 2))"
      by simp
    have k0: "0 \<le> k" using r by (simp add: k_def)
    then have i: "nat (min k 2) < 3" by auto
    have "ack upd = [] \<or> (\<exists>r. ack upd = CHR ''G'' # r)"
      using ack_head [of upd] by (cases "upd = []") (simp_all add: ack_def)
    from prompt_not_fallback [OF this i, of st2 n] resp have nf: "resp \<noteq> fallback_response"
      by simp
    have f': "retry_count st' = k" "current_step st' = n" "trading_pair st' = trading_pair st2"
      by (simp_all add: st'_def a)
    have pp: "prompts st' n = prompts st2 n" using f'(3) by (rule prompts_pair)
    have c1: "upd = [] \<longrightarrow> retry_count st' = retry_count st + 1 \<and> 1 \<le> retry_count st'"
      using r by (simp add: f'(1) k_def)
    have c2: "ack upd \<noteq> [] \<or> 0 < min (retry_count st') 2"
      using r by (cases "upd = []") (simp_all add: f'(1) k_def ack_def)
    have c3: "resp = strip (ack upd @ '' '' @ prompts st' (current_step st') ! nat (min (retry_count st') 2))"
      by (simp add: resp f' pp)
    from c1 c2 c3 have
      "let upd = snd (collect lib (heard w st (transcript_of data) (req_timestamp data))
                       (transcript_of data) nums);
           prompt_idx = min (retry_count st') 2
       in (upd = [] \<longrightarrow> retry_count st' = retry_count st + 1 \<and> 1 \<le> retry_count st') \<and>
          (ack upd \<noteq> [] \<or> 0 < prompt_idx) \<and>
          resp = strip (ack upd @ '' '' @ prompts st' (current_step st') ! nat prompt_idx)"
      unfolding Let_def upd_def t_def ts_def by blast
    with nf l(1) s' nm show ?thesis by blast
  qed
qed

theorem fallback_unreachable_witness:
  "snd (webhook demo_lib offline quantity_store (utter ''c1'' ''hello'')) =
     Inr ''Please say the price (e.g., 2000).'' \<and>
   ''Please say the price (e.g., 2000).'' \<noteq> fallback_response"
proof -
  have s: "snd (webhook demo_lib offline quantity_store (utter ''c1'' ''hello'')) =
             Inr ''Please say the price (e.g., 2000).''"
    by (simp add: quantity_store_webhook turn_hello)
  then have w: "webhook demo_lib offline quantity_store (utter ''c1'' ''hello'') =
             (fst (webhook demo_lib offline quantity_store (utter ''c1'' ''hello'')),
              Inr ''Please say the price (e.g., 2000).'')"
    by (simp add: prod_eq_iff)
  have "req_call_id (utter ''c1'' ''hello'') = Some ''c1''" by simp
  from fallback_unreachable [OF quantity_run w this] have
    "''Please say the price (e.g., 2000).'' \<noteq> fallback_response"
    by (rule conjunct1)
  with s show ?thesis by (rule conjI)
qed

text \<open>
  Claim C2, as amended. After every run, a session whose four slots are all set has
  ended. A session that no \<^verbatim>\<open>end_call\<close> request has named has ended exactly when its four
  slots are all set. A \<^verbatim>\<open>webhook\<close> request either leaves the session as it is (among others
  when the session has ended, so that the confirmation is not entered again) or is a
  turn on a session that had not ended, and after that turn the session has ended
  exactly when its four slots are all set.
\<close>

theorem ended_and_slots:
  assumes "run lib Map.empty es = Some S" "S cid = Some st"
  shows "(all_slots_set st \<longrightarrow> ended st) \<and>
         (End_call (Some cid) \<notin> set es \<longrightarrow> (ended st \<longleftrightarrow> all_slots_set st)) \<and>
         (\<forall>w data. \<exists>st'. fst (webhook lib w S data) cid = Some st' \<and>
            (st' = st \<or> \<not> ended st \<and> (ended st' \<longleftrightarrow> all_slots_set st')))"
proof -
  have ok: "store_ok S" using assms(1) by (rule reachable_ok)
  with assms(2) have a: "all_slots_set st \<longrightarrow> ended st" "0 \<le> retry_count st"
    by (simp_all add: store_ok_def)
  have b: "End_call (Some cid) \<notin> set es \<longrightarrow> ended st \<longrightarrow> all_slots_set st"
    using run_ended_slots [OF store_ok_empty assms(1) _ _ assms(2)] by auto
  have c: "\<forall>w data. \<exists>st'. fst (webhook lib w S data) cid = Some st' \<and>
            (st' = st \<or> \<not> ended st \<and> (ended st' \<longleftrightarrow> all_slots_set st'))"
  proof (intro allI)
    fix w data
    show "\<exists>st'. fst (webhook lib w S data) cid = Some st' \<and>
            (st' = st \<or> \<not> ended st \<and> (ended st' \<longleftrightarrow> all_slots_set st'))"
      using assms(2) a(2,1) by (rule webhook_session)
  qed
  from a(1) b c show ?thesis by blast
qed

theorem ended_and_slots_witness:
  "End_call (Some ''c1'') \<notin> set order_events \<and>
   (\<exists>st. order_store ''c1'' = Some st \<and> ended st \<and> all_slots_set st)"
proof -
  have n: "End_call (Some ''c1'') \<notin> set order_events"
    by (simp add: order_events_def quantity_events_def say_def)
  from order_session have
    e: "ended (fst (turn demo_lib offline awaiting_price (transcript_of (utter ''c1'' ''at 5'')) None))"
    by (simp add: order_store_session)
  from ended_and_slots [OF order_run order_store_session] n e have
    "all_slots_set (fst (turn demo_lib offline awaiting_price (transcript_of (utter ''c1'' ''at 5'')) None))"
    by blast
  with n e show ?thesis by (simp add: order_store_session)
qed

text \<open>
  Claim C2 as it was stated says that an ended session has all four slots set, after
  every run. \<^verbatim>\<open>end_call\<close> sets the ended flag whatever the slots are: a session that is
  started and then ended by \<^verbatim>\<open>end_call\<close> has ended and has no slot set.
\<close>

theorem end_call_ends_without_slots:
  "map_option ended (session_after demo_lib [Start_call ''c1'' 0 ''t0'', End_call (Some ''c1'')] ''c1'') =
     Some True \<and>
   map_option all_slots_set
     (session_after demo_lib [Start_call ''c1'' 0 ''t0'', End_call (Some ''c1'')] ''c1'') = Some False"
  by (simp add: session_after_def start_call_def end_call_def all_slots_set_def)

text \<open>
  Claim C5, as amended. The numbers of a turn are the decimal literals of the
  transcript or, when it has none, the one result of the word parser (which may be no
  number); there is at least one. If the lower-cased transcript holds the substring
  \<^verbatim>\<open>at\<close>, anywhere, also inside a word, the last number is the price candidate and there
  is no quantity candidate. Otherwise the first number is the quantity candidate; it is
  the price candidate as well when the quantity of the session is set to a number that
  is not zero, and there is no price candidate when the quantity of the session is
  unset.
\<close>

theorem candidate_rule:
  "(findall number_rx (lower t) = n # ns \<longrightarrow>
      numbers lib t = Inr (map (\<lambda>m. Some (float_of lib m)) (n # ns))) \<and>
   (findall number_rx (lower t) = [] \<longrightarrow>
      numbers lib t = (case extract_number lib t of Inl e \<Rightarrow> Inl e | Inr v \<Rightarrow> Inr [v])) \<and>
   (numbers lib t = Inr nums \<longrightarrow>
      nums \<noteq> [] \<and>
      (substr_in ''at'' (lower t) \<longrightarrow>
         price_candidate lib nums (lower t) known = last nums \<and>
         qty_candidate nums (lower t) = None) \<and>
      (\<not> substr_in ''at'' (lower t) \<longrightarrow>
         qty_candidate nums (lower t) = hd nums \<and>
         (\<forall>q. known = Some q \<and> \<not> is_zero lib q \<longrightarrow>
            price_candidate lib nums (lower t) known = hd nums) \<and>
         (known = None \<longrightarrow> price_candidate lib nums (lower t) known = None)))"
proof -
  have b: "findall number_rx (lower t) = n # ns \<longrightarrow>
      numbers lib t = Inr (map (\<lambda>m. Some (float_of lib m)) (n # ns))"
    by (simp add: numbers_def Let_def)
  have b': "findall number_rx (lower t) = [] \<longrightarrow>
      numbers lib t = (case extract_number lib t of Inl e \<Rightarrow> Inl e | Inr v \<Rightarrow> Inr [v])"
    by (simp add: numbers_def Let_def)
  have rest: "numbers lib t = Inr nums \<longrightarrow>
      nums \<noteq> [] \<and>
      (substr_in ''at'' (lower t) \<longrightarrow>
         price_candidate lib nums (lower t) known = last nums \<and>
         qty_candidate nums (lower t) = None) \<and>
      (\<not> substr_in ''at'' (lower t) \<longrightarrow>
         qty_candidate nums (lower t) = hd nums \<and>
         (\<forall>q. known = Some q \<and> \<not> is_zero lib q \<longrightarrow>
            price_candidate lib nums (lower t) known = hd nums) \<and>
         (known = None \<longrightarrow> price_candidate lib nums (lower t) known = None))"
  proof
    assume nm: "numbers lib t = Inr nums"
    then have a: "nums \<noteq> []"
      by (auto simp add: numbers_def Let_def split: if_splits sum.splits)
    have c: "substr_in ''at'' (lower t) \<longrightarrow>
        price_candidate lib nums (lower t) known = last nums \<and>
        qty_candidate nums (lower t) = None"
      using a by (simp add: price_candidate_def qty_candidate_def)
    have d: "\<not> substr_in ''at'' (lower t) \<longrightarrow>
        qty_candidate nums (lower t) = hd nums \<and>
        (\<forall>q. known = Some q \<and> \<not> is_zero lib q \<longrightarrow>
           price_candidate lib nums (lower t) known = hd nums) \<and>
        (known = None \<longrightarrow> price_candidate lib nums (lower t) known = None)"
      using a by (simp add: price_candidate_def qty_candidate_def truthy_def)
    from a c d show "nums \<noteq> [] \<and>
      (substr_in ''at'' (lower t) \<longrightarrow>
         price_candidate lib nums (lower t) known = last nums \<and>
         qty_candidate nums (lower t) = None) \<and>
      (\<not> substr_in ''at'' (lower t) \<longrightarrow>
         qty_candidate nums (lower t) = hd nums \<and>
         (\<forall>q. known = Some q \<and> \<not> is_zero lib q \<longrightarrow>
            price_candidate lib nums (lower t) known = hd nums) \<and>
         (known = None \<longrightarrow> price_candidate lib nums (lower t) known = None))"
      by blast
  qed
  from b b' rest show ?thesis by blast
qed

theorem candidate_rule_witness:
  "numbers demo_lib ''at 100 for 5'' = Inr [Some 100, Some 5] \<and>
   price_candidate demo_lib [Some 100, Some 5] (lower ''at 100 for 5'') (Some 3) = Some 5 \<and>
   qty_candidate [Some (100::rat), Some 5] (lower ''at 100 for 5'') = None \<and>
   numbers demo_lib ''7'' = Inr [Some 7] \<and>
   qty_candidate [Some (7::rat)] (lower ''7'') = Some 7 \<and>
   price_candidate demo_lib [Some 7] (lower ''7'') (Some 3) = Some 7 \<and>
   price_candidate demo_lib [Some 7] (lower ''7'') None = None"
proof -
  have z: "\<not> is_zero demo_lib 3" by (simp add: demo_lib_def)
  from readings_at_100_for_5 have
    s1: "substr_in ''at'' (lower ''at 100 for 5'')" and
    f1: "findall number_rx (lower ''at 100 for 5'') = [''100'', ''5'']" and
    v1: "float_of demo_lib ''100'' = 100" "float_of demo_lib ''5'' = 5"
    by simp_all
  from readings_7 have
    s2: "\<not> substr_in ''at'' (lower ''7'')" and
    f2: "findall number_rx (lower ''7'') = [''7'']" and
    v2: "float_of demo_lib ''7'' = 7"
    by simp_all
  note c1 = candidate_rule [of "''at 100 for 5''" "''100''" "[''5'']" demo_lib
      "[Some 100, Some 5]" "Some 3"]
  note c2 = candidate_rule [of "''7''" "''7''" "[]" demo_lib "[Some 7]" "Some 3"]
  note c3 = candidate_rule [of "''7''" "''7''" "[]" demo_lib "[Some 7]" None]
  from c1 f1 v1 have n1: "numbers demo_lib ''at 100 for 5'' = Inr [Some 100, Some 5]" by simp
  from c2 f2 v2 have n2: "numbers demo_lib ''7'' = Inr [Some 7]" by simp
  from c1 n1 s1 have
    "price_candidate demo_lib [Some 100, Some 5] (lower ''at 100 for 5'') (Some 3) =
       last [Some 100, Some 5]"
    "qty_candidate [Some (100::rat), Some 5] (lower ''at 100 for 5'') = None"
    by blast+
  then have a:
    "price_candidate demo_lib [Some 100, Some 5] (lower ''at 100 for 5'') (Some 3) = Some 5"
    "qty_candidate [Some (100::rat), Some 5] (lower ''at 100 for 5'') = None"
    by simp_all
  from c2 n2 s2 z have
    "qty_candidate [Some (7::rat)] (lower ''7'') = hd [Some 7]"
    "price_candidate demo_lib [Some 7] (lower ''7'') (Some 3) = hd [Some 7]"
    by blast+
  then have b:
    "qty_candidate [Some (7::rat)] (lower ''7'') = Some 7"
    "price_candidate demo_lib [Some 7] (lower ''7'') (Some 3) = Some 7"
    by simp_all
  from c3 n2 s2 have c: "price_candidate demo_lib [Some 7] (lower ''7'') None = None"
    by blast
  from n1 n2 a b c show ?thesis by blast
qed

text \<open>
  Claim C5 as it was stated takes the number nearest the keyword as the price. In
  ``at 100 for 5'' the number nearest the keyword is 100; the source takes the last
  number, 5.
\<close>

theorem at_takes_last_number:
  "substr_in ''at'' (lower ''at 100 for 5'') \<and>
   map_option (float_of demo_lib) (nearest_number ''at'' (lower ''at 100 for 5'')) = Some 100 \<and>
   numbers demo_lib ''at 100 for 5'' = Inr [Some 100, Some 5] \<and>
   price_candidate demo_lib [Some 100, Some 5] (lower ''at 100 for 5'') None = Some 5"
  by code_simp

text \<open>
  Claim C6. The claim: the retry counter is reset to 0 once the step advances to
  another slot. In the source the counter is reset only when the order is confirmed: a
  turn that sets a slot and leaves another one missing changes the current step and
  leaves the counter as it is. After ``hello'' the session is at the step exchange with
  the counter at 1; after ``okx'' the exchange is set, the step is the trading pair and
  the counter is still 1.
\<close>

theorem retry_count_survives_step_advance:
  "map_option (\<lambda>st. (exchange st, current_step st, retry_count st))
     (session_after demo_lib [Start_call ''c1'' 0 ''t0'', say ''c1'' ''hello''] ''c1'') =
     Some (None, Exchange, 1) \<and>
   map_option (\<lambda>st. (exchange st, current_step st, retry_count st))
     (session_after demo_lib [Start_call ''c1'' 0 ''t0'', say ''c1'' ''hello'', say ''c1'' ''okx''] ''c1'') =
     Some (Some ''okx'', Trading_pair, 1)"
  by code_simp

end
